theory Spec2Isabelle
  imports Complex_Main "HOL-Library.Sublist"
begin

section \<open>JavaScript values used by the application\<close>

text \<open>
  A JavaScript string is a sequence of UTF-16 code units. Regular expressions
  without the \<open>u\<close> flag and \<open>String.prototype.trim\<close> work on code units, so a
  string is modelled as a list of code-unit values; \<open>str\<close> embeds an ASCII literal.
  A property that may be missing is an \<open>option\<close>: \<open>None\<close> is \<open>undefined\<close>.
\<close>

type_synonym jschar = nat
type_synonym jsstring = "jschar list"

definition cu :: "char \<Rightarrow> jschar" where
  "cu c = of_char c"

definition str :: "string \<Rightarrow> jsstring" where
  "str s = map cu s"

text \<open>A number is a finite value, an infinity or NaN; the code only asks for its type and
  its truthiness, and a number is falsy exactly when it is zero or NaN.\<close>

datatype jsnum = Finite rat | PosInf | NegInf | NaN

datatype js_error = TypeError | Error jsstring

definition truthy :: "jsstring option \<Rightarrow> bool" where
  "truthy v = (case v of None \<Rightarrow> False | Some s \<Rightarrow> s \<noteq> [])"

definition num_truthy :: "jsnum option \<Rightarrow> bool" where
  "num_truthy v = (case v of Some (Finite r) \<Rightarrow> r \<noteq> 0 | Some PosInf \<Rightarrow> True
                   | Some NegInf \<Rightarrow> True | Some NaN \<Rightarrow> False | None \<Rightarrow> False)"

text \<open>\<open>a || b\<close> on values that are strings or undefined.\<close>

definition js_or :: "jsstring option \<Rightarrow> jsstring option \<Rightarrow> jsstring option" where
  "js_or a b = (if truthy a then a else b)"

text \<open>String conversion inside a template literal or a concatenation.\<close>

definition to_string :: "jsstring option \<Rightarrow> jsstring" where
  "to_string v = (case v of None \<Rightarrow> str ''undefined'' | Some s \<Rightarrow> s)"

text \<open>
  A property read \<open>obj[key]\<close> with a computed key follows the prototype chain of a
  plain object: it finds the object's own property, else the member of
  \<open>Object.prototype\<close> of that name (a function, or the prototype object itself for
  \<open>__proto__\<close>), else it is \<open>undefined\<close>. An object is the list of its own
  properties, in insertion order.
\<close>

datatype 'a property = Undefined | Own 'a | Inherited jsstring

definition object_prototype_members :: "jsstring list" where
  "object_prototype_members = map str
     [''constructor'', ''hasOwnProperty'', ''isPrototypeOf'', ''propertyIsEnumerable'',
      ''toLocaleString'', ''toString'', ''valueOf'', ''__defineGetter__'',
      ''__defineSetter__'', ''__lookupGetter__'', ''__lookupSetter__'', ''__proto__'']"

definition get_property :: "(jsstring \<times> 'a) list \<Rightarrow> jsstring \<Rightarrow> 'a property" where
  "get_property obj key =
     (case map_of obj key of
        Some v \<Rightarrow> Own v
      | None \<Rightarrow> if key \<in> set object_prototype_members then Inherited key else Undefined)"

text \<open>The truthiness of a value read where the own properties are strings: an
  inherited member is a function or an object, hence truthy.\<close>

definition text_truthy :: "jsstring property \<Rightarrow> bool" where
  "text_truthy v = (case v of Undefined \<Rightarrow> False | Own s \<Rightarrow> s \<noteq> [] | Inherited m \<Rightarrow> True)"


text \<open>The decimal digits of an array index, as \<open>${index}\<close> prints them.\<close>

fun show_nat :: "nat \<Rightarrow> jsstring" where
  "show_nat n = (if n < 10 then [48 + n] else show_nat (n div 10) @ [48 + n mod 10])"

declare show_nat.simps [simp del]

text \<open>\<open>Array.prototype.includes\<close>, \<open>indexOf\<close> (\<open>-1\<close> when absent) and \<open>join\<close>
  (an undefined element joins as the empty string); \<open>new Set(xs)\<close> spread back into an
  array keeps the first occurrence of every element, in order.\<close>

definition array_includes :: "'a list \<Rightarrow> 'a \<Rightarrow> bool" where
  "array_includes xs x = (x \<in> set xs)"

fun indexOf :: "'a list \<Rightarrow> 'a \<Rightarrow> int" where
  "indexOf [] x = -1"
| "indexOf (y # ys) x =
     (if y = x then 0 else (let r = indexOf ys x in if r < 0 then -1 else r + 1))"

fun join :: "jsstring \<Rightarrow> jsstring option list \<Rightarrow> jsstring" where
  "join sep [] = []"
| "join sep [x] = (case x of None \<Rightarrow> [] | Some s \<Rightarrow> s)"
| "join sep (x # y # ys) = (case x of None \<Rightarrow> [] | Some s \<Rightarrow> s) @ sep @ join sep (y # ys)"

definition set_spread :: "'a list \<Rightarrow> 'a list" where
  "set_spread xs = fold (\<lambda>x acc. if x \<in> set acc then acc else acc @ [x]) xs []"

section \<open>Regular expressions of the sanitizer and the validator\<close>

text \<open>
  The patterns in the source are built from single-character classes, \<open>+\<close> applied to
  a class, and concatenation. \<open>rmatch\<close> is a backtracking matcher in continuation
  style: it tries the longest run of a \<open>+\<close> first, as the engine does, and returns what
  the continuation returns for the rest of the input.
\<close>

datatype regex =
    REps
  | RClass "jschar \<Rightarrow> bool"
  | RPlus "jschar \<Rightarrow> bool"
  | RSeq regex regex

fun rmatch :: "regex \<Rightarrow> jsstring \<Rightarrow> (jsstring \<Rightarrow> jsstring option) \<Rightarrow> jsstring option" where
  "rmatch REps s k = k s"
| "rmatch (RClass P) [] k = None"
| "rmatch (RClass P) (c # cs) k = (if P c then k cs else None)"
| "rmatch (RPlus P) [] k = None"
| "rmatch (RPlus P) (c # cs) k =
     (if P c then (case rmatch (RPlus P) cs k of Some r \<Rightarrow> Some r | None \<Rightarrow> k cs)
      else None)"
| "rmatch (RSeq a b) s k = rmatch a s (\<lambda>r. rmatch b r k)"

text \<open>\<open>s.replace(/rx/g, '')\<close>: the leftmost match is dropped and the scan goes on
  after it; a position with no match keeps its code unit.\<close>

fun replace_all :: "regex \<Rightarrow> jsstring \<Rightarrow> jsstring" where
  "replace_all rx [] = []"
| "replace_all rx (c # cs) =
     (case rmatch rx (c # cs) Some of
        Some r \<Rightarrow> if length r < length (c # cs) then replace_all rx r
                  else c # replace_all rx cs
      | None \<Rightarrow> c # replace_all rx cs)"

text \<open>\<open>/^rx$/.test(s)\<close>.\<close>

definition regex_test_anchored :: "regex \<Rightarrow> jsstring \<Rightarrow> bool" where
  "regex_test_anchored rx s = (rmatch rx s (\<lambda>r. if r = [] then Some [] else None) \<noteq> None)"

text \<open>The character classes \<open>\s\<close> (also the set \<open>trim\<close> strips), \<open>\w\<close> and \<open>\d\<close>.\<close>

definition is_whitespace :: "jschar \<Rightarrow> bool" where
  "is_whitespace c =
     (c \<in> set [9, 10, 11, 12, 13, 32, 160, 5760, 8232, 8233, 8239, 8287, 12288, 65279]
      \<or> (8192 \<le> c \<and> c \<le> 8202))"

definition is_digit :: "jschar \<Rightarrow> bool" where
  "is_digit c = (48 \<le> c \<and> c \<le> 57)"

definition is_word :: "jschar \<Rightarrow> bool" where
  "is_word c = (is_digit c \<or> (65 \<le> c \<and> c \<le> 90) \<or> c = 95 \<or> (97 \<le> c \<and> c \<le> 122))"

definition trim :: "jsstring \<Rightarrow> jsstring" where
  "trim s = rev (dropWhile is_whitespace (rev (dropWhile is_whitespace s)))"

text \<open>The \<open>i\<close> flag compares canonicalised code units; for the ASCII letters of the
  patterns this identifies a letter with its other case and with nothing else.\<close>

definition canonicalize :: "jschar \<Rightarrow> jschar" where
  "canonicalize c = (if 97 \<le> c \<and> c \<le> 122 then c - 32 else c)"

fun literal_i :: "jsstring \<Rightarrow> regex" where
  "literal_i [] = REps"
| "literal_i (c # cs) = RSeq (RClass (\<lambda>x. canonicalize x = canonicalize c)) (literal_i cs)"

definition angle_brackets :: regex where
  "angle_brackets = RClass (\<lambda>c. c = cu CHR ''<'' \<or> c = cu CHR ''>'')"

definition javascript_scheme :: regex where
  "javascript_scheme = literal_i (str ''javascript:'')"

definition event_handler :: regex where
  "event_handler = RSeq (literal_i (str ''on'')) (RSeq (RPlus is_word) (RClass (\<lambda>c. c = cu CHR ''='')))"

definition not_space_or_at :: "jschar \<Rightarrow> bool" where
  "not_space_or_at c = (\<not> is_whitespace c \<and> c \<noteq> cu CHR ''@'')"

definition emailRegex :: regex where
  "emailRegex = RSeq (RPlus not_space_or_at) (RSeq (RClass (\<lambda>c. c = cu CHR ''@''))
     (RSeq (RPlus not_space_or_at) (RSeq (RClass (\<lambda>c. c = cu CHR ''.'')) (RPlus not_space_or_at))))"

definition not_phone_char :: "jschar \<Rightarrow> bool" where
  "not_phone_char c = (\<not> (is_digit c \<or> c = cu CHR ''+'' \<or> c = cu CHR ''('' \<or> c = cu CHR '')''
                          \<or> c = cu CHR ''-'' \<or> is_whitespace c))"

section \<open>The sanitizer (security-implementation.js)\<close>

text \<open>
  \<open>new URL(s)\<close> belongs to the browser, not to the repository: the parser is a
  parameter. It returns \<open>None\<close> where the constructor throws, and otherwise the parsed
  URL's \<open>protocol\<close> and its serialisation.
\<close>

record url =
  protocol :: jsstring
  href :: jsstring

type_synonym url_parser = "jsstring \<Rightarrow> url option"

definition sanitizeURL :: "url_parser \<Rightarrow> jsstring option \<Rightarrow> jsstring" where
  "sanitizeURL parse u =
     (case u of
        None \<Rightarrow> []
      | Some s \<Rightarrow>
          (case parse s of
             None \<Rightarrow> []
           | Some parsed \<Rightarrow>
               if \<not> array_includes [str ''http:'', str ''https:''] (protocol parsed) then []
               else href parsed))"

definition sanitizeEmail :: "jsstring option \<Rightarrow> jsstring" where
  "sanitizeEmail email =
     (case email of None \<Rightarrow> [] | Some s \<Rightarrow> if regex_test_anchored emailRegex s then s else [])"

definition sanitizePhone :: "jsstring option \<Rightarrow> jsstring" where
  "sanitizePhone phone =
     (case phone of None \<Rightarrow> [] | Some s \<Rightarrow> replace_all (RClass not_phone_char) s)"

definition sanitizeText :: "jsstring option \<Rightarrow> jsstring" where
  "sanitizeText text =
     (case text of
        None \<Rightarrow> []
      | Some t \<Rightarrow>
          trim (replace_all event_handler (replace_all javascript_scheme
            (replace_all angle_brackets t))))"

section \<open>The partner data (script.js)\<close>

text \<open>
  An entry of the dataset, with the property types the source documents for
  \<open>validatePartnerData\<close>. Every property may be missing, which the validator tests;
  with these types \<open>typeof partner.lat !== 'number'\<close> holds exactly for a missing \<open>lat\<close>
  and \<open>Array.isArray(partner.languages)\<close> exactly for a present \<open>languages\<close>.
  \<open>description\<close> is an object, the list of its own properties in insertion order.
\<close>

record partner =
  name :: "jsstring option"
  lat :: "jsnum option"
  lng :: "jsnum option"
  community :: "jsstring option"
  languages :: "jsstring list option"
  description :: "(jsstring \<times> jsstring) list option"
  address :: "jsstring option"
  phone :: "jsstring option"
  email :: "jsstring option"
  website :: "jsstring option"

text \<open>\<open>sanitizePartnerData\<close>: the spread keeps \<open>lat\<close>, \<open>lng\<close>, \<open>community\<close> and
  \<open>languages\<close>; \<open>Object.keys\<close> of a missing description throws. The new description is
  filled by \<open>acc[lang] = ...\<close>, which for the key \<open>__proto__\<close> calls the prototype
  setter with a string and so adds no property.\<close>

fun map_result :: "('a \<Rightarrow> js_error + 'b) \<Rightarrow> 'a list \<Rightarrow> js_error + 'b list" where
  "map_result f [] = Inr []"
| "map_result f (x # xs) =
     (case f x of
        Inl e \<Rightarrow> Inl e
      | Inr y \<Rightarrow> (case map_result f xs of Inl e \<Rightarrow> Inl e | Inr ys \<Rightarrow> Inr (y # ys)))"

definition sanitizePartner :: "url_parser \<Rightarrow> partner \<Rightarrow> js_error + partner" where
  "sanitizePartner parse p =
     (case description p of
        None \<Rightarrow> Inl TypeError
      | Some d \<Rightarrow>
          Inr (p\<lparr> name := Some (sanitizeText (name p)),
                 address := Some (sanitizeText (address p)),
                 phone := Some (sanitizePhone (phone p)),
                 email := Some (sanitizeEmail (email p)),
                 website := Some (sanitizeURL parse (website p)),
                 description := Some (map (\<lambda>(lang, text). (lang, sanitizeText (Some text)))
                                        (filter (\<lambda>(lang, text). lang \<noteq> str ''__proto__'') d)) \<rparr>))"

definition sanitizePartnerData :: "url_parser \<Rightarrow> partner list \<Rightarrow> js_error + partner list" where
  "sanitizePartnerData parse ps = map_result (sanitizePartner parse) ps"

section \<open>The data validator (script.js)\<close>

definition validCommunities :: "jsstring list" where
  "validCommunities = map str
     [''First Nations'', ''Arts'', ''Youth'', ''Health & Wellbeing'',
      ''Carers Support Services'', ''Children & Families'', ''Community Support'',
      ''Disability Services'', ''Domestic Violence'', ''Food & Emergency Support'',
      ''Government Departments'', ''LGBTQIA+'', ''Multicultural'']"

definition requiredFields :: "jsstring list" where
  "requiredFields = map str
     [''name'', ''lat'', ''lng'', ''community'', ''languages'', ''description'',
      ''address'', ''phone'', ''email'', ''website'']"

text \<open>The truthiness of \<open>partner[field]\<close>: a string is truthy when non-empty, a number
  when neither zero nor NaN, an array or an object whenever it is there.\<close>

definition field_truthy :: "partner \<Rightarrow> jsstring \<Rightarrow> bool" where
  "field_truthy p field =
     (if field = str ''name'' then truthy (name p)
      else if field = str ''lat'' then num_truthy (lat p)
      else if field = str ''lng'' then num_truthy (lng p)
      else if field = str ''community'' then truthy (community p)
      else if field = str ''languages'' then languages p \<noteq> None
      else if field = str ''description'' then description p \<noteq> None
      else if field = str ''address'' then truthy (address p)
      else if field = str ''phone'' then truthy (phone p)
      else if field = str ''email'' then truthy (email p)
      else if field = str ''website'' then truthy (website p)
      else False)"

text \<open>The prefix \<open>Partner ${index} (${name}): \<close> of every message about one entry.\<close>

definition partner_prefix :: "nat \<Rightarrow> jsstring \<Rightarrow> jsstring" where
  "partner_prefix index nm = str ''Partner '' @ show_nat index @ str '' ('' @ nm @ str ''): ''"

definition missing_field_errors :: "nat \<Rightarrow> partner \<Rightarrow> jsstring list \<Rightarrow> jsstring list" where
  "missing_field_errors index p errs =
     fold (\<lambda>field es.
        if \<not> field_truthy p field
        then es @ [partner_prefix index (to_string (js_or (name p) (Some (str ''Unknown''))))
                     @ str ''Missing '' @ field]
        else es) requiredFields errs"

text \<open>The body of \<open>partners.forEach((partner, index) => ...)\<close>, on the pair of the
  errors and the warnings collected so far.\<close>

definition check_partner ::
  "url_parser \<Rightarrow> nat \<times> partner \<Rightarrow> jsstring list \<times> jsstring list \<Rightarrow> jsstring list \<times> jsstring list" where
  "check_partner parse ip acc =
     (let index = fst ip; p = snd ip;
          label = partner_prefix index (to_string (name p));
          errs = missing_field_errors index p (fst acc);
          errs = (if lat p = None \<or> lng p = None
                  then errs @ [label @ str ''Invalid coordinates''] else errs);
          errs = (if \<not> (case community p of None \<Rightarrow> False
                          | Some c \<Rightarrow> array_includes validCommunities c)
                  then errs @ [label @ str ''Invalid community '' @ [cu CHR 0x27]
                                 @ to_string (community p) @ [cu CHR 0x27]]
                  else errs);
          errs = (if truthy (email p) \<and> \<not> regex_test_anchored emailRegex (to_string (email p))
                  then errs @ [label @ str ''Invalid email format''] else errs);
          errs = (if truthy (website p) \<and> parse (to_string (website p)) = None
                  then errs @ [label @ str ''Invalid website URL''] else errs);
          errs = (if (case description p of None \<Rightarrow> True
                        | Some d \<Rightarrow> \<not> truthy (map_of d (str ''English'')))
                  then errs @ [label @ str ''Missing English description''] else errs);
          warns = (if (case languages p of None \<Rightarrow> True | Some ls \<Rightarrow> length ls = 0)
                   then snd acc @ [label @ str ''No languages specified''] else snd acc)
      in (errs, warns))"

record validation =
  errors :: "jsstring list"
  warnings :: "jsstring list"
  isValid :: bool

definition find_duplicates :: "'a list \<Rightarrow> 'a list" where
  "find_duplicates names =
     map snd (filter (\<lambda>(index, nm). indexOf names nm \<noteq> int index) (enumerate 0 names))"

definition validatePartnerData :: "url_parser \<Rightarrow> partner list \<Rightarrow> validation" where
  "validatePartnerData parse partners =
     (let acc = fold (check_partner parse) (enumerate 0 partners) ([], []);
          errs = fst acc;
          names = map name partners;
          duplicates = find_duplicates names;
          warns = (if length duplicates > 0
                   then snd acc @ [str ''Duplicate names found: ''
                                     @ join (str '', '') (set_spread duplicates)]
                   else snd acc)
      in \<lparr> errors = errs, warnings = warns, isValid = (length errs = 0) \<rparr>)"

text \<open>
  The vocabulary of the specification's data model, used to state what the validator
  reports: an entry is well formed apart from its e-mail when its coordinates are numbers,
  every other required field is present, its category is one of the thirteen, its website
  parses as a URL and its English description is present; its e-mail is valid when it is
  present and matches the address syntax. A coordinate may be any number, zero included.
  \<open>truthy_coordinates\<close> says more: neither coordinate is zero or NaN, which is what the
  validator's presence test \<open>!partner[field]\<close> asks of a number.
\<close>

definition well_formed_but_email :: "url_parser \<Rightarrow> partner \<Rightarrow> bool" where
  "well_formed_but_email parse p =
     (truthy (name p) \<and> lat p \<noteq> None \<and> lng p \<noteq> None
      \<and> (case community p of None \<Rightarrow> False | Some c \<Rightarrow> c \<in> set validCommunities)
      \<and> languages p \<noteq> None
      \<and> (case description p of None \<Rightarrow> False | Some d \<Rightarrow> truthy (map_of d (str ''English'')))
      \<and> truthy (address p) \<and> truthy (phone p)
      \<and> truthy (website p) \<and> parse (to_string (website p)) \<noteq> None)"

definition truthy_coordinates :: "partner \<Rightarrow> bool" where
  "truthy_coordinates p = (num_truthy (lat p) \<and> num_truthy (lng p))"

definition valid_email :: "partner \<Rightarrow> bool" where
  "valid_email p = (truthy (email p) \<and> regex_test_anchored emailRegex (to_string (email p)))"

text \<open>The errors of an entry that is well formed apart from its e-mail: a coordinate
  that is zero or NaN is reported as missing, and so is a missing or empty e-mail.\<close>

definition entry_errors :: "nat \<times> partner \<Rightarrow> jsstring list" where
  "entry_errors ip =
     (if num_truthy (lat (snd ip)) then []
      else [partner_prefix (fst ip) (to_string (name (snd ip))) @ str ''Missing lat''])
     @ (if num_truthy (lng (snd ip)) then []
        else [partner_prefix (fst ip) (to_string (name (snd ip))) @ str ''Missing lng''])
     @ (if \<not> truthy (email (snd ip))
        then [partner_prefix (fst ip) (to_string (name (snd ip))) @ str ''Missing email'']
        else if \<not> regex_test_anchored emailRegex (to_string (email (snd ip)))
        then [partner_prefix (fst ip) (to_string (name (snd ip))) @ str ''Invalid email format'']
        else [])"

text \<open>A warning is the aggregated duplicate warning when it starts with its fixed text.\<close>

definition is_duplicate_warning :: "jsstring \<Rightarrow> bool" where
  "is_duplicate_warning w = prefix (str ''Duplicate names found: '') w"

section \<open>The hardcoded dataset (script.js, \<open>const partners\<close>)\<close>

text \<open>The eighteen entries in source order. A text outside plain ASCII is written as
  its UTF-16 code units.\<close>

definition partner_0 :: partner where
  "partner_0 =
     \<lparr> name = Some (str ''Kurranulla Aboriginal Corporation''),
       lat = Some (Finite (-34.053)),
       lng = Some (Finite (151.06)),
       community = Some (str ''First Nations''),
       languages = Some [str ''English''],
       description = Some
       [(str ''English'',
         str ''Provides services and programs for the local Aboriginal community.''),
        (str ''Mandarin'',
         [20026, 24403, 22320, 21407, 20303, 27665, 31038, 21306, 25552, 20379, 26381,
           21153, 21644, 39033, 30446, 12290]),
        (str ''Cantonese'',
         [28858, 30070, 22320, 21407, 20303, 27665, 31038, 21312, 25552, 20379, 26381,
           21209, 21644, 35336, 21123, 12290]),
        (str ''Nepali'',
         [2360, 2381, 2341, 2366, 2344, 2368, 2351, 32, 2310, 2342, 2367, 2357, 2366,
           2360, 2368, 32, 2360, 2350, 2369, 2342, 2366, 2351, 2325, 2366, 32, 2354,
           2366, 2327, 2367, 32, 2360, 2375, 2357, 2366, 32, 2352, 32, 2325, 2366, 2352,
           2381, 2351, 2325, 2381, 2352, 2350, 2361, 2352, 2370, 32, 2346, 2381, 2352,
           2342, 2366, 2344, 32, 2327, 2352, 2381, 2342, 2331, 2404]),
        (str ''Italian'',
         [70, 111, 114, 110, 105, 115, 99, 101, 32, 115, 101, 114, 118, 105, 122, 105,
           32, 101, 32, 112, 114, 111, 103, 114, 97, 109, 109, 105, 32, 112, 101, 114,
           32, 108, 97, 32, 99, 111, 109, 117, 110, 105, 116, 224, 32, 97, 98, 111, 114,
           105, 103, 101, 110, 97, 32, 108, 111, 99, 97, 108, 101, 46]),
        (str ''Greek'',
         [928, 945, 961, 941, 967, 949, 953, 32, 965, 960, 951, 961, 949, 963, 943,
           949, 962, 32, 954, 945, 953, 32, 960, 961, 959, 947, 961, 940, 956, 956, 945,
           964, 945, 32, 947, 953, 945, 32, 964, 951, 957, 32, 964, 959, 960, 953, 954,
           942, 32, 954, 959, 953, 957, 972, 964, 951, 964, 945, 32, 964, 969, 957, 32,
           913, 946, 959, 961, 953, 947, 943, 957, 969, 957, 46])],
       address = Some (str ''15 Jannali Avenue, Jannali''),
       phone = Some (str ''(02) 9528 0287''),
       email = Some (str ''contact@kurranulla.org.au''),
       website = Some (str ''https://www.kurranulla.org.au/'') \<rparr>"

definition partner_1 :: partner where
  "partner_1 =
     \<lparr> name = Some (str ''Metropolitan Local Aboriginal Land Council''),
       lat = Some (Finite (-33.874)),
       lng = Some (Finite (151.21)),
       community = Some (str ''First Nations''),
       languages = Some [str ''English''],
       description = Some
       [(str ''English'',
         str ''Advocates for Aboriginal people in the Sydney metropolitan area.''),
        (str ''Mandarin'',
         [20026, 24713, 23612, 22823, 37117, 20250, 21306, 30340, 21407, 20303, 27665,
           25552, 20379, 25903, 25345, 12290])],
       address = Some (str ''Level 2, 150 Elizabeth St Sydney''),
       phone = Some (str ''(02) 8394 9666''),
       email = Some (str ''metrolalc@metrolalc.org.au''),
       website = Some (str ''https://metrolalc.org.au/'') \<rparr>"

definition partner_2 :: partner where
  "partner_2 =
     \<lparr> name = Some (str ''3Bridges Burrbangana Program''),
       lat = Some (Finite (-33.973)),
       lng = Some (Finite (151.09)),
       community = Some (str ''First Nations''),
       languages = Some [str ''English''],
       description = Some
       [(str ''English'',
         str ''Youth mentoring and indigenous learning programs.''),
        (str ''Mandarin'',
         [38738, 24180, 36741, 23548, 21644, 22303, 33879, 23398, 20064, 39033, 30446,
           12290])],
       address = Some (str ''643A King Georges Road, Penshurst''),
       phone = Some (str ''1300 327 434''),
       email = Some (str ''admin@3bridges.org.au''),
       website = Some (str ''https://3bridges.org.au/'') \<rparr>"

definition partner_3 :: partner where
  "partner_3 =
     \<lparr> name = Some (str ''Shopfront Arts Co-op''),
       lat = Some (Finite (-33.9545)),
       lng = Some (Finite (151.1215)),
       community = Some (str ''Arts''),
       languages = Some [str ''English''],
       description = Some
       [(str ''English'',
         str ''A space for young people to create and experience art.''),
        (str ''Mandarin'',
         [19968, 20010, 35753, 24180, 36731, 20154, 21019, 20316, 21644, 20307, 39564,
           33402, 26415, 30340, 31354, 38388, 12290]),
        (str ''Cantonese'',
         [19968, 20491, 20478, 24180, 36629, 20154, 21109, 20316, 21516, 39636, 39511,
           34269, 34899, 22021, 31354, 38291, 12290]),
        (str ''Nepali'',
         [2351, 2369, 2357, 2366, 2361, 2352, 2370, 2354, 2366, 2312, 32, 2325, 2354,
           2366, 32, 2360, 2367, 2352, 2381, 2332, 2344, 2366, 32, 2327, 2352, 2381,
           2344, 32, 2352, 32, 2309, 2344, 2369, 2349, 2357, 32, 2327, 2352, 2381, 2344,
           2325, 2366, 32, 2354, 2366, 2327, 2367, 32, 2319, 2313, 2335, 2366, 32, 2336,
           2366, 2313, 2305, 2404]),
        (str ''Italian'',
         [85, 110, 111, 32, 115, 112, 97, 122, 105, 111, 32, 112, 101, 114, 32, 105,
           32, 103, 105, 111, 118, 97, 110, 105, 32, 112, 101, 114, 32, 99, 114, 101,
           97, 114, 101, 32, 101, 32, 115, 112, 101, 114, 105, 109, 101, 110, 116, 97,
           114, 101, 32, 108, 39, 97, 114, 116, 101, 46]),
        (str ''Greek'',
         [904, 957, 945, 962, 32, 967, 974, 961, 959, 962, 32, 947, 953, 945, 32, 957,
           941, 959, 965, 962, 32, 957, 945, 32, 948, 951, 956, 953, 959, 965, 961, 947,
           942, 963, 959, 965, 957, 32, 954, 945, 953, 32, 957, 945, 32, 946, 953, 974,
           963, 959, 965, 957, 32, 964, 951, 957, 32, 964, 941, 967, 957, 951, 46])],
       address = Some (str ''88 Carlton Parade, Carlton''),
       phone = Some (str ''(02) 9588 3948''),
       email = Some (str ''hello@shopfront.org.au''),
       website = Some (str ''https://shopfront.org.au/'') \<rparr>"

definition partner_4 :: partner where
  "partner_4 =
     \<lparr> name = Some (str ''Bus Stop Films''),
       lat = Some (Finite (-33.9545)),
       lng = Some (Finite (151.1215)),
       community = Some (str ''Arts''),
       languages = Some [str ''English''],
       description = Some
       [(str ''English'',
         str ''An accessible film studies program for people with disabilities.''),
        (str ''Mandarin'',
         [20026, 27531, 30142, 20154, 22763, 25552, 20379, 30340, 26080, 38556, 30861,
           30005, 24433, 30740, 31350, 39033, 30446, 12290])],
       address = Some (str ''86-88 Carlton Parade, Carlton''),
       phone = Some (str ''(02) 7204 5010''),
       email = Some (str ''hello@busstopfilms.com.au''),
       website = Some (str ''https://www.busstopfilms.com.au/'') \<rparr>"

definition partner_5 :: partner where
  "partner_5 =
     \<lparr> name = Some (str ''PCYC St George''),
       lat = Some (Finite (-33.95)),
       lng = Some (Finite (151.15)),
       community = Some (str ''Youth''),
       languages = Some [str ''English''],
       description = Some
       [(str ''English'',
         str ''Youth and community programs.''),
        (str ''Mandarin'',
         [38738, 24180, 21644, 31038, 21306, 39033, 30446, 12290]),
        (str ''Cantonese'',
         [38738, 24180, 21516, 31038, 21312, 35336, 21123, 12290]),
        (str ''Nepali'',
         [2351, 2369, 2357, 2366, 32, 2352, 32, 2360, 2366, 2350, 2369, 2342, 2366,
           2351, 2367, 2325, 32, 2325, 2366, 2352, 2381, 2351, 2325, 2381, 2352, 2350,
           2361, 2352, 2370, 2404]),
        (str ''Italian'',
         [80, 114, 111, 103, 114, 97, 109, 109, 105, 32, 112, 101, 114, 32, 105, 32,
           103, 105, 111, 118, 97, 110, 105, 32, 101, 32, 108, 97, 32, 99, 111, 109,
           117, 110, 105, 116, 224, 46]),
        (str ''Greek'',
         [928, 961, 959, 947, 961, 940, 956, 956, 945, 964, 945, 32, 947, 953, 945, 32,
           957, 941, 959, 965, 962, 32, 954, 945, 953, 32, 964, 951, 957, 32, 954, 959,
           953, 957, 972, 964, 951, 964, 945, 46])],
       address = Some (str ''McCarthy Reserve, 9 Ador Avenue, Rockdale''),
       phone = Some (str ''(02) 9567 0408''),
       email = Some (str ''stgeorge@pcycnsw.org.au''),
       website = Some (str ''https://www.pcycnsw.org.au/st-george'') \<rparr>"

definition partner_6 :: partner where
  "partner_6 =
     \<lparr> name = Some (str ''Headspace Hurstville''),
       lat = Some (Finite (-33.967)),
       lng = Some (Finite (151.104)),
       community = Some (str ''Health & Wellbeing''),
       languages = Some [str ''English''],
       description = Some
       [(str ''English'',
         str ''Youth mental health services.''),
        (str ''Mandarin'',
         [38738, 24180, 24515, 29702, 20581, 24247, 26381, 21153, 12290])],
       address = Some (str ''41 Dora Street, Hurstville''),
       phone = Some (str ''(02) 8048 3350''),
       email = Some (str ''headspace.hurstville@stride.com.au''),
       website = Some (str ''https://headspace.org.au/headspace-centres/hurstville/'') \<rparr>"

definition partner_7 :: partner where
  "partner_7 =
     \<lparr> name = Some (str ''Lifeline''),
       lat = Some (Finite (-33.8688)),
       lng = Some (Finite (151.2093)),
       community = Some (str ''Health & Wellbeing''),
       languages = Some [str ''English''],
       description = Some
       [(str ''English'',
         str ''24/7 crisis support and suicide prevention.''),
        (str ''Mandarin'',
         [50, 52, 47, 55, 32, 21361, 26426, 25903, 25345, 21644, 33258, 26432, 39044,
           38450, 12290])],
       address = Some (str ''National Service - Multiple Locations''),
       phone = Some (str ''13 11 14''),
       email = Some (str ''info@lifeline.org.au''),
       website = Some (str ''https://www.lifeline.org.au/'') \<rparr>"

definition partner_8 :: partner where
  "partner_8 =
     \<lparr> name = Some (str ''Carers NSW''),
       lat = Some (Finite (-33.8394)),
       lng = Some (Finite (151.2081)),
       community = Some (str ''Carers Support Services''),
       languages = Some [str ''English''],
       description = Some
       [(str ''English'',
         str ''The peak non-government organisation for carers in NSW.''),
        (str ''Mandarin'',
         [26032, 21335, 23041, 23572, 22763, 24030, 29031, 39038, 32773, 30340, 26368,
           39640, 38750, 25919, 24220, 32452, 32455, 12290])],
       address = Some (str ''Level 10/213 Miller St, North Sydney''),
       phone = Some (str ''(02) 9280 4744''),
       email = Some (str ''contact@carersnsw.org.au''),
       website = Some (str ''https://www.carersnsw.org.au/'') \<rparr>"

definition partner_9 :: partner where
  "partner_9 =
     \<lparr> name = Some (str ''St George Family Support Services''),
       lat = Some (Finite (-33.959)),
       lng = Some (Finite (151.129)),
       community = Some (str ''Children & Families''),
       languages = Some [str ''English''],
       description = Some
       [(str ''English'',
         str ''Provides support to vulnerable children, young people, and families.''),
        (str ''Mandarin'',
         [20026, 24369, 21183, 20799, 31461, 12289, 38738, 23569, 24180, 21644, 23478,
           24237, 25552, 20379, 25903, 25345, 12290])],
       address = Some (str ''42 Jubilee Avenue, Carlton''),
       phone = Some (str ''(02) 9553 9100''),
       email = Some (str ''information@sgfss.org.au''),
       website = Some (str ''https://www.sgfss.org.au/'') \<rparr>"

definition partner_10 :: partner where
  "partner_10 =
     \<lparr> name = Some (str ''Tresillian''),
       lat = Some (Finite (-33.8688)),
       lng = Some (Finite (151.2093)),
       community = Some (str ''Children & Families''),
       languages = Some [str ''English''],
       description = Some
       [(str ''English'',
         str ''Early parenting support for families with young children.''),
        (str ''Mandarin'',
         [20026, 26377, 24188, 20799, 30340, 23478, 24237, 25552, 20379, 26089, 26399,
           32946, 20799, 25903, 25345, 12290])],
       address = Some (str ''Multiple Locations - Sydney Metro''),
       phone = Some (str ''1300 272 736''),
       email = Some (str ''enquiries@tresillian.org.au''),
       website = Some (str ''https://www.tresillian.org.au/'') \<rparr>"

definition partner_11 :: partner where
  "partner_11 =
     \<lparr> name = Some (str ''3Bridges Community''),
       lat = Some (Finite (-33.973)),
       lng = Some (Finite (151.09)),
       community = Some (str ''Community Support''),
       languages = Some [str ''English''],
       description = Some
       [(str ''English'',
         str ''Offers a wide range of services for all ages and cultures.''),
        (str ''Mandarin'',
         [20026, 25152, 26377, 24180, 40836, 21644, 25991, 21270, 30340, 20154, 25552,
           20379, 24191, 27867, 30340, 26381, 21153, 12290])],
       address = Some (str ''643/643A King Georges Road, Penshurst''),
       phone = Some (str ''1300 327 434''),
       email = Some (str ''admin@3bridges.org.au''),
       website = Some (str ''https://3bridges.org.au/'') \<rparr>"

definition partner_12 :: partner where
  "partner_12 =
     \<lparr> name = Some (str ''Northcott''),
       lat = Some (Finite (-33.967)),
       lng = Some (Finite (151.104)),
       community = Some (str ''Disability Services''),
       languages = Some [str ''English''],
       description = Some
       [(str ''English'',
         str ''Supports people with disability to live the life they choose.''),
        (str ''Mandarin'',
         [25903, 25345, 27531, 30142, 20154, 22763, 36807, 19978, 20182, 20204, 36873,
           25321, 30340, 29983, 27963, 12290])],
       address = Some (str ''Level 2, Suite 2, 12 Butler Road, Hurstville''),
       phone = Some (str ''1800 818 286''),
       email = Some (str ''northcott@northcott.com.au''),
       website = Some (str ''https://northcott.com.au/'') \<rparr>"

definition partner_13 :: partner where
  "partner_13 =
     \<lparr> name = Some (str ''1800RESPECT''),
       lat = Some (Finite (-33.8688)),
       lng = Some (Finite (151.2093)),
       community = Some (str ''Domestic Violence''),
       languages = Some [str ''English''],
       description = Some
       [(str ''English'',
         str ''National sexual assault, domestic family violence counselling service.''),
        (str ''Mandarin'',
         [22269, 23478, 24615, 20405, 29359, 12289, 23478, 24237, 26292, 21147, 21672,
           35810, 26381, 21153, 12290])],
       address = Some (str ''National Service - Phone & Online''),
       phone = Some (str ''1800 737 732''),
       email = Some (str ''info@1800respect.org.au''),
       website = Some (str ''https://www.1800respect.org.au/'') \<rparr>"

definition partner_14 :: partner where
  "partner_14 =
     \<lparr> name = Some (str ''Salvation Army Hurstville''),
       lat = Some (Finite (-33.967)),
       lng = Some (Finite (151.104)),
       community = Some (str ''Food & Emergency Support''),
       languages = Some [str ''English''],
       description = Some
       [(str ''English'',
         str ''Emergency relief and community support.''),
        (str ''Mandarin'',
         [32039, 24613, 25937, 25588, 21644, 31038, 21306, 25903, 25345, 12290])],
       address = Some (str ''Cnr Bond and Dore Streets, Hurstville''),
       phone = Some (str ''(02) 9570 2617''),
       email = Some (str ''hurstvillesalvos@salvationarmy.org.au''),
       website = Some (str ''https://www.salvationarmy.org.au/hurstville'') \<rparr>"

definition partner_15 :: partner where
  "partner_15 =
     \<lparr> name = Some (str ''Bayside Council''),
       lat = Some (Finite (-33.96)),
       lng = Some (Finite (151.15)),
       community = Some (str ''Government Departments''),
       languages = Some [str ''English''],
       description = Some
       [(str ''English'',
         str ''Local government services.''),
        (str ''Mandarin'',
         [22320, 26041, 25919, 24220, 26381, 21153, 12290])],
       address = Some (str ''444-446 Princes Highway, Rockdale''),
       phone = Some (str ''1300 581 299''),
       email = Some (str ''council@bayside.nsw.gov.au''),
       website = Some (str ''https://www.bayside.nsw.gov.au/'') \<rparr>"

definition partner_16 :: partner where
  "partner_16 =
     \<lparr> name = Some (str ''ACON''),
       lat = Some (Finite (-33.88)),
       lng = Some (Finite (151.21)),
       community = Some (str ''LGBTQIA+''),
       languages = Some [str ''English''],
       description = Some
       [(str ''English'',
         str ''Health promotion organisation for LGBTQIA+ people.''),
        (str ''Mandarin'',
         [20026, 32, 76, 71, 66, 84, 81, 73, 65, 43, 32, 20154, 22763, 25552, 20379,
           20581, 24247, 20419, 36827, 30340, 32452, 32455, 12290])],
       address = Some (str ''414 Elizabeth Street, Surry Hills''),
       phone = Some (str ''1800 063 060''),
       email = Some (str ''acon@acon.org.au''),
       website = Some (str ''https://www.acon.org.au/'') \<rparr>"

definition partner_17 :: partner where
  "partner_17 =
     \<lparr> name = Some (str ''Advance Diversity Services''),
       lat = Some (Finite (-33.967)),
       lng = Some (Finite (151.104)),
       community = Some (str ''Multicultural''),
       languages = Some [str ''English''],
       description = Some
       [(str ''English'',
         str ''Services for culturally and linguistically diverse communities.''),
        (str ''Mandarin'',
         [20026, 25991, 21270, 21644, 35821, 35328, 22810, 26679, 21270, 30340, 31038,
           21306, 25552, 20379, 26381, 21153, 12290])],
       address = Some (str ''Suite 231 & 232 (Building 2/Level 3), 7-11 The Avenue, Hurstville''),
       phone = Some (str ''(02) 9597 5455''),
       email = Some (str ''info@advancediversity.org.au''),
       website = Some (str ''https://www.advancediversity.org.au/'') \<rparr>"

definition partners :: "partner list" where
  "partners =
     [partner_0, partner_1, partner_2, partner_3, partner_4, partner_5,
      partner_6, partner_7, partner_8, partner_9, partner_10, partner_11,
      partner_12, partner_13, partner_14, partner_15, partner_16, partner_17]"

section \<open>The QR generator (script.js)\<close>

text \<open>
  The environment of the page: whether the security manager with its sanitizer was
  constructed, the browser's URL parser, the QR library (\<open>None\<close> when
  \<open>typeof qrcode === 'undefined'\<close>; otherwise \<open>addData\<close> and \<open>make\<close> produce a symbol
  or throw), and whether \<open>canvas.getContext('2d')\<close> yields a context.
\<close>

record qr_symbol =
  moduleCount :: nat
  isDark :: "nat \<Rightarrow> nat \<Rightarrow> bool"

record env =
  security :: bool
  parseURL :: url_parser
  qrcode :: "(jsstring \<Rightarrow> js_error + qr_symbol) option"
  canvas2d :: bool

text \<open>The canvas after drawing: its size and the dark cells filled, each a
  \<open>fillRect(x, y, cellSize, cellSize)\<close>, in drawing order.\<close>

record canvas =
  width :: nat
  height :: nat
  dark_rects :: "(nat \<times> nat \<times> nat \<times> nat) list"

datatype qr_element =
    QrImage canvas jsstring
  | QrPlaceholder jsstring jsstring

text \<open>\<open>QrImage src alt\<close> is the \<open>img\<close> whose source is the canvas content;
  \<open>QrPlaceholder textContent title\<close> is the fallback \<open>div\<close>.\<close>

definition draw_qr :: "qr_symbol \<Rightarrow> canvas" where
  "draw_qr qr =
     (let cellSize = 4; margin = 8; size = moduleCount qr * cellSize + margin * 2
      in \<lparr> width = size, height = size,
           dark_rects = concat (map (\<lambda>row. concat (map (\<lambda>col.
               if isDark qr row col
               then [(col * cellSize + margin, row * cellSize + margin, cellSize, cellSize)]
               else []) [0..<moduleCount qr])) [0..<moduleCount qr]) \<rparr>)"

text \<open>The body of the \<open>try\<close> block; \<open>Inl\<close> is an exception thrown inside it.\<close>

definition qr_try :: "env \<Rightarrow> jsstring option \<Rightarrow> js_error + qr_element" where
  "qr_try e url =
     (case (if security e
            then (let sanitizedUrl = sanitizeURL (parseURL e) url
                  in if sanitizedUrl = [] then Inl (Error (str ''Invalid URL provided''))
                     else Inr sanitizedUrl)
            else (case parseURL e (to_string url) of
                    None \<Rightarrow> Inl (Error (str ''Invalid URL provided''))
                  | Some parsed \<Rightarrow> Inr (to_string url)))
      of Inl err \<Rightarrow> Inl err
       | Inr sanitizedUrl \<Rightarrow>
           (case qrcode e of
              None \<Rightarrow> Inl (Error (str ''QR code library not loaded''))
            | Some encode \<Rightarrow>
                (case encode sanitizedUrl of
                   Inl err \<Rightarrow> Inl err
                 | Inr qr \<Rightarrow>
                     if \<not> canvas2d e then Inl TypeError
                     else Inr (QrImage (draw_qr qr) (str ''QR code for '' @ sanitizedUrl)))))"

text \<open>The \<open>catch\<close> block builds the placeholder.\<close>

definition qr_placeholder :: "jsstring option \<Rightarrow> qr_element" where
  "qr_placeholder url = QrPlaceholder (str ''QR Code'') (str ''QR code for '' @ to_string url)"

definition generateQrCode :: "env \<Rightarrow> jsstring option \<Rightarrow> js_error + qr_element" where
  "generateQrCode e url =
     (case qr_try e url of Inr img \<Rightarrow> Inr img | Inl err \<Rightarrow> Inr (qr_placeholder url))"

section \<open>The filter and the renderer (script.js, \<open>updateDisplay\<close>)\<close>

text \<open>\<open>Array.prototype.filter\<close> with a callback that may throw: the first exception
  ends the scan.\<close>

fun filter_result :: "('a \<Rightarrow> js_error + bool) \<Rightarrow> 'a list \<Rightarrow> js_error + 'a list" where
  "filter_result f [] = Inr []"
| "filter_result f (x # xs) =
     (case f x of
        Inl e \<Rightarrow> Inl e
      | Inr keep \<Rightarrow>
          (case filter_result f xs of
             Inl e \<Rightarrow> Inl e
           | Inr ys \<Rightarrow> Inr (if keep then x # ys else ys)))"

text \<open>The callback: \<open>p.languages.includes\<close> on a missing \<open>languages\<close> is a TypeError.\<close>

definition filter_callback :: "jsstring \<Rightarrow> jsstring \<Rightarrow> partner \<Rightarrow> js_error + bool" where
  "filter_callback selectedLanguage selectedCommunity p =
     (case languages p of
        None \<Rightarrow> Inl TypeError
      | Some ls \<Rightarrow>
          (let languageMatch = (array_includes ls selectedLanguage
                                \<or> array_includes ls (str ''English''));
               communityMatch = (community p = Some selectedCommunity)
           in Inr (languageMatch \<and> communityMatch)))"

definition filteredPartners ::
  "partner list \<Rightarrow> jsstring \<Rightarrow> jsstring \<Rightarrow> js_error + partner list" where
  "filteredPartners sanitizedPartners selectedLanguage selectedCommunity =
     filter_result (filter_callback selectedLanguage selectedCommunity) sanitizedPartners"

text \<open>
  What the renderer builds for one entry. Every field holds the value the code assigns:
  the title, the description, the labels read from the current translations, the text
  nodes \<open>' ' + partner.address\<close> and \<open>' ' + partner.phone\<close>, the e-mail paragraph (its
  label and the address, only for an e-mail that is truthy and not \<open>N/A\<close>) and the QR
  element. A marker, with a popup of the same content, is added for truthy coordinates.
\<close>

record card =
  card_title :: "jsstring option"
  card_description :: "jsstring property"
  card_address_label :: "jsstring option"
  card_address :: jsstring
  card_phone_label :: "jsstring option"
  card_phone :: jsstring
  card_email :: "(jsstring option \<times> jsstring) option"
  card_qr :: qr_element

datatype list_node = NoResults "jsstring option" | Item card

record marker =
  marker_lat :: "jsnum option"
  marker_lng :: "jsnum option"
  popup :: card

type_synonym translation_table = "(jsstring \<times> (jsstring \<times> jsstring) list) list"

text \<open>The state \<open>updateDisplay\<close> reads and writes. \<open>organisationList\<close>, \<open>listHeader\<close>
  and \<open>markerLayer\<close> are \<open>None\<close> when the element or the layer does not exist.\<close>

record app_state =
  translations_table :: translation_table
  sanitizedPartners :: "partner list"
  selectedLanguage :: jsstring
  selectedCommunity :: jsstring
  organisationList :: "list_node list option"
  listHeader :: "jsstring option option"
  markerLayer :: "marker list option"

text \<open>\<open>translations[selectedLanguage] || translations['English']\<close>: a translation
  set and an inherited member are both truthy.\<close>

definition currentTranslations :: "app_state \<Rightarrow> (jsstring \<times> jsstring) list property" where
  "currentTranslations st =
     (case get_property (translations_table st) (selectedLanguage st) of
        Undefined \<Rightarrow> get_property (translations_table st) (str ''English'')
      | Own t \<Rightarrow> Own t
      | Inherited m \<Rightarrow> Inherited m)"

text \<open>
  \<open>currentTranslations.key\<close> for one of the fixed label keys \<open>listHeader\<close>,
  \<open>noServicesFound\<close>, \<open>labelAddress\<close>, \<open>labelPhone\<close> and \<open>labelEmail\<close>, none of them a
  member of \<open>Object.prototype\<close>: on a translation set the read gives its own property or
  \<open>undefined\<close>; on an inherited member, which has no property of these names, it gives
  \<open>undefined\<close>; on \<open>undefined\<close> it throws.
\<close>

definition label_of :: "(jsstring \<times> jsstring) list property \<Rightarrow> jsstring \<Rightarrow> jsstring option" where
  "label_of tr key = (case tr of Own t \<Rightarrow> map_of t key | Undefined \<Rightarrow> None | Inherited m \<Rightarrow> None)"

definition read_label ::
  "(jsstring \<times> jsstring) list property \<Rightarrow> jsstring \<Rightarrow> js_error + jsstring option" where
  "read_label tr key = (if tr = Undefined then Inl TypeError else Inr (label_of tr key))"

text \<open>\<open>partner.description[selectedLanguage] || partner.description['English']\<close>.\<close>

definition select_description ::
  "(jsstring \<times> jsstring) list \<Rightarrow> jsstring \<Rightarrow> jsstring property" where
  "select_description d lang =
     (if text_truthy (get_property d lang) then get_property d lang
      else get_property d (str ''English''))"

definition build_card ::
  "env \<Rightarrow> (jsstring \<times> jsstring) list property \<Rightarrow> jsstring \<Rightarrow> partner
     \<Rightarrow> (jsstring \<times> jsstring) list \<Rightarrow> js_error + card" where
  "build_card e tr lang p d =
     (case generateQrCode e (website p) of
        Inl err \<Rightarrow> Inl err
      | Inr qr \<Rightarrow>
          Inr \<lparr> card_title = name p,
                card_description = select_description d lang,
                card_address_label = label_of tr (str ''labelAddress''),
                card_address = str '' '' @ to_string (address p),
                card_phone_label = label_of tr (str ''labelPhone''),
                card_phone = str '' '' @ to_string (phone p),
                card_email = (if truthy (email p) \<and> email p \<noteq> Some (str ''N/A'')
                              then Some (label_of tr (str ''labelEmail''), to_string (email p))
                              else None),
                card_qr = qr \<rparr>)"

text \<open>One round of \<open>filteredPartners.forEach\<close>: reading the description of an entry
  without one, or a label when no translation set exists, throws before anything is
  appended.\<close>

definition render_partner ::
  "env \<Rightarrow> (jsstring \<times> jsstring) list property \<Rightarrow> jsstring \<Rightarrow> partner
     \<Rightarrow> js_error + (card \<times> marker option)" where
  "render_partner e tr lang p =
     (case description p of
        None \<Rightarrow> Inl TypeError
      | Some d \<Rightarrow>
          if tr = Undefined then Inl TypeError
          else (case build_card e tr lang p d of
                  Inl err \<Rightarrow> Inl err
                | Inr c \<Rightarrow>
                    Inr (c, if num_truthy (lat p) \<and> num_truthy (lng p)
                            then Some \<lparr> marker_lat = lat p, marker_lng = lng p, popup = c \<rparr>
                            else None)))"

fun render_all ::
  "env \<Rightarrow> (jsstring \<times> jsstring) list property \<Rightarrow> jsstring \<Rightarrow> partner list
     \<Rightarrow> list_node list \<times> marker list \<Rightarrow> js_error option \<times> list_node list \<times> marker list" where
  "render_all e tr lang [] acc = (None, acc)"
| "render_all e tr lang (p # ps) acc =
     (case render_partner e tr lang p of
        Inl err \<Rightarrow> (Some err, acc)
      | Inr (c, m) \<Rightarrow>
          render_all e tr lang ps
            (fst acc @ [Item c], (case m of None \<Rightarrow> snd acc | Some mk \<Rightarrow> snd acc @ [mk])))"

text \<open>
  \<open>updateDisplay\<close> returns the exception that ended it, if any, and the state it left
  behind. After the guard it clears the marker layer and the list; then it sets the list
  header, which reads a label (\<open>set_list_header\<close>), and then it filters the dataset
  and fills the list and the layer (\<open>populate\<close>).
\<close>

definition set_list_header :: "app_state \<Rightarrow> js_error + app_state" where
  "set_list_header st1 =
     (if listHeader st1 = None then Inr st1
      else (case read_label (currentTranslations st1) (str ''listHeader'') of
              Inl err \<Rightarrow> Inl err
            | Inr v \<Rightarrow> Inr (st1\<lparr> listHeader := Some v \<rparr>)))"

definition populate :: "env \<Rightarrow> app_state \<Rightarrow> js_error option \<times> app_state" where
  "populate e st2 =
     (case filteredPartners (sanitizedPartners st2) (selectedLanguage st2)
             (selectedCommunity st2) of
        Inl err \<Rightarrow> (Some err, st2)
      | Inr filtered \<Rightarrow>
          if length filtered = 0
          then (case read_label (currentTranslations st2) (str ''noServicesFound'') of
                  Inl err \<Rightarrow> (Some err, st2)
                | Inr v \<Rightarrow> (None, st2\<lparr> organisationList := Some [NoResults v] \<rparr>))
          else (let r = render_all e (currentTranslations st2) (selectedLanguage st2)
                          filtered ([], [])
                in (fst r, st2\<lparr> organisationList := Some (fst (snd r)),
                                markerLayer := Some (snd (snd r)) \<rparr>)))"

definition updateDisplay :: "env \<Rightarrow> app_state \<Rightarrow> js_error option \<times> app_state" where
  "updateDisplay e st =
     (if organisationList st = None \<or> markerLayer st = None then (None, st)
      else
        (let st1 = st\<lparr> markerLayer := Some [], organisationList := Some [] \<rparr>
         in case set_list_header st1 of
              Inl err \<Rightarrow> (Some err, st1)
            | Inr st2 \<Rightarrow> populate e st2))"


fun node_descriptions :: "list_node list \<Rightarrow> jsstring property list" where
  "node_descriptions [] = []"
| "node_descriptions (NoResults v # ns) = node_descriptions ns"
| "node_descriptions (Item c # ns) = card_description c # node_descriptions ns"


section \<open>The offline cache manager (service-worker.js)\<close>

text \<open>Cache storage is the list of the origin's named caches, in creation order;
  \<open>caches.keys()\<close> lists the names and \<open>caches.delete(name)\<close> removes the cache of
  that name.\<close>

definition CACHE_NAME :: jsstring where
  "CACHE_NAME = str ''community-resources-v1''"

type_synonym 'c cache_storage = "(jsstring \<times> 'c) list"

definition caches_keys :: "'c cache_storage \<Rightarrow> jsstring list" where
  "caches_keys cs = map fst cs"

definition caches_delete :: "jsstring \<Rightarrow> 'c cache_storage \<Rightarrow> 'c cache_storage" where
  "caches_delete cacheName cs = filter (\<lambda>entry. fst entry \<noteq> cacheName) cs"

record 'c worker_state =
  caches :: "'c cache_storage"
  clients_claimed :: bool

text \<open>The activate handler: every name other than \<open>CACHE_NAME\<close> is deleted, then the
  worker claims its clients.\<close>

definition activate :: "'c worker_state \<Rightarrow> 'c worker_state" where
  "activate st =
     (let cacheNames = caches_keys (caches st);
          stale = filter (\<lambda>cacheName. cacheName \<noteq> CACHE_NAME) cacheNames
      in st\<lparr> caches := fold caches_delete stale (caches st), clients_claimed := True \<rparr>)"

section \<open>Facts about strings and the matcher\<close>

lemma cu_eq_iff: "cu c = cu d \<longleftrightarrow> c = d"
  by (simp add: cu_def)

lemma str_eq_iff: "str a = str b \<longleftrightarrow> a = b"
  unfolding str_def by (rule inj_map_eq_map) (simp add: inj_on_def cu_eq_iff)

lemma str_simps: "str [] = []" "str (c # cs) = cu c # str cs"
  by (simp_all add: str_def)

text \<open>A match consumes a prefix: what the continuation sees is a suffix of the input.\<close>

lemma rmatch_suffix:
  "rmatch rx s k = Some y \<Longrightarrow> \<exists>r. suffix r s \<and> k r = Some y"
proof (induction rx s k arbitrary: y rule: rmatch.induct)
  case (1 s k)
  then show ?case by auto
next
  case (2 P k)
  then show ?case by simp
next
  case (3 P c cs k)
  then show ?case by (auto split: if_splits intro: suffix_ConsI)
next
  case (4 P k)
  then show ?case by simp
next
  case (5 P c cs k)
  show ?case
  proof (cases "rmatch (RPlus P) cs k")
    case None
    with 5 show ?thesis by (auto split: if_splits intro: suffix_ConsI)
  next
    case (Some r)
    with 5 have pc: "P c" and "r = y" by (auto split: if_splits)
    with 5(1)[OF pc] Some obtain r' where "suffix r' cs" "k r' = Some y" by blast
    then show ?thesis by (auto intro: suffix_ConsI)
  qed
next
  case (6 a b s k)
  from 6(3) have "rmatch a s (\<lambda>r. rmatch b r k) = Some y" by simp
  from 6(2)[OF this] obtain r where r: "suffix r s" "rmatch b r k = Some y" by blast
  from 6(1)[OF r(2)] obtain r' where "suffix r' r" "k r' = Some y" by blast
  with r(1) show ?case by (meson suffix_order.trans)
qed

lemma rmatch_Some_suffix: "rmatch rx s Some = Some r \<Longrightarrow> suffix r s"
  using rmatch_suffix[of rx s Some r] by auto

text \<open>Replacing matches by the empty string only removes code units.\<close>

lemma set_replace_all: "set (replace_all rx s) \<subseteq> set s"
proof (induction rx s rule: replace_all.induct)
  case (1 rx)
  then show ?case by simp
next
  case (2 rx c cs)
  show ?case
  proof (cases "rmatch rx (c # cs) Some")
    case None
    with 2 show ?thesis by auto
  next
    case (Some r)
    then have "set r \<subseteq> set (c # cs)" using rmatch_Some_suffix set_mono_suffix by blast
    with 2 Some show ?thesis by (cases "length r < length (c # cs)") auto
  qed
qed

lemma replace_all_RClass: "replace_all (RClass P) s = filter (\<lambda>c. \<not> P c) s"
  by (induction s) auto

lemma set_trim: "set (trim s) \<subseteq> set s"
proof
  fix x assume "x \<in> set (trim s)"
  then have "x \<in> set (dropWhile is_whitespace (rev (dropWhile is_whitespace s)))"
    by (simp add: trim_def)
  then have "x \<in> set (dropWhile is_whitespace s)" using set_dropWhileD by fastforce
  then show "x \<in> set s" by (rule set_dropWhileD)
qed

section \<open>The sanitizer\<close>

lemma sanitizeText_subset:
  "set (sanitizeText (Some s)) \<subseteq> set (replace_all angle_brackets s)"
  unfolding sanitizeText_def using set_trim set_replace_all by (simp, blast)

lemma sanitizeText_img: "sanitizeText (Some (str ''<img onerror=x>'')) = str ''img x''"
  by (simp add: sanitizeText_def trim_def angle_brackets_def javascript_scheme_def
      event_handler_def str_simps cu_def canonicalize_def is_word_def is_digit_def
      is_whitespace_def)

text \<open>
  Claim C6. For every string, the output of \<open>sanitizeText\<close> contains neither \<open><\<close> nor
  \<open>>\<close>; \<open>sanitizeText("<img onerror=x>")\<close> is \<open>img x\<close>, which contains no angle bracket
  and not the substring \<open>onerror=\<close>; and an input that is not a string gives the empty
  string.
\<close>

theorem sanitizeText_no_angle_brackets:
  "cu CHR ''<'' \<notin> set (sanitizeText (Some s)) \<and> cu CHR ''>'' \<notin> set (sanitizeText (Some s))
   \<and> sanitizeText (Some (str ''<img onerror=x>'')) = str ''img x''
   \<and> \<not> sublist (str ''onerror='') (sanitizeText (Some (str ''<img onerror=x>'')))
   \<and> sanitizeText None = []"
proof -
  have "set (sanitizeText (Some s))
          \<subseteq> set (filter (\<lambda>c. \<not> (c = cu CHR ''<'' \<or> c = cu CHR ''>'')) s)"
    using sanitizeText_subset[of s] by (simp add: angle_brackets_def replace_all_RClass)
  then have a: "cu CHR ''<'' \<notin> set (sanitizeText (Some s))
                \<and> cu CHR ''>'' \<notin> set (sanitizeText (Some s))"
    by auto
  have "length (str ''onerror='') > length (str ''img x'')" by (simp add: str_def)
  then have b: "\<not> sublist (str ''onerror='') (str ''img x'')"
    using sublist_length_le by fastforce
  have c: "sanitizeText None = []" by (simp add: sanitizeText_def)
  from a b c show ?thesis by (simp only: sanitizeText_img) simp
qed

text \<open>
  Claim C2. \<open>sanitizeURL\<close> returns a non-empty string only for a string that parses
  as a URL whose scheme is \<open>http\<close> or \<open>https\<close>, and then it returns the parsed URL's
  serialisation; a URL of any other scheme, an unparseable string and a value that is not
  a string give the empty string.
\<close>

theorem sanitizeURL_http_only:
  "(sanitizeURL parse u \<noteq> [] \<longrightarrow>
      (\<exists>s parsed. u = Some s \<and> parse s = Some parsed
         \<and> (protocol parsed = str ''http:'' \<or> protocol parsed = str ''https:'')
         \<and> sanitizeURL parse u = href parsed))
   \<and> (\<forall>s parsed. parse s = Some parsed
         \<and> (protocol parsed = str ''http:'' \<or> protocol parsed = str ''https:'')
         \<longrightarrow> sanitizeURL parse (Some s) = href parsed)
   \<and> (\<forall>s parsed. parse s = Some parsed
         \<and> protocol parsed \<noteq> str ''http:'' \<and> protocol parsed \<noteq> str ''https:''
         \<longrightarrow> sanitizeURL parse (Some s) = [])
   \<and> (\<forall>s. parse s = None \<longrightarrow> sanitizeURL parse (Some s) = [])
   \<and> sanitizeURL parse None = []"
  by (auto simp: sanitizeURL_def array_includes_def split: option.splits if_splits)

theorem sanitizeURL_http_only_witness:
  "sanitizeURL (map_of
      [(str ''https://example.org'',
          \<lparr>protocol = str ''https:'', href = str ''https://example.org/''\<rparr>),
       (str ''javascript:alert(1)'',
          \<lparr>protocol = str ''javascript:'', href = str ''javascript:alert(1)''\<rparr>)])
      (Some (str ''https://example.org'')) = str ''https://example.org/''
   \<and> sanitizeURL (map_of
      [(str ''https://example.org'',
          \<lparr>protocol = str ''https:'', href = str ''https://example.org/''\<rparr>),
       (str ''javascript:alert(1)'',
          \<lparr>protocol = str ''javascript:'', href = str ''javascript:alert(1)''\<rparr>)])
      (Some (str ''javascript:alert(1)'')) = []
   \<and> sanitizeURL (map_of
      [(str ''https://example.org'',
          \<lparr>protocol = str ''https:'', href = str ''https://example.org/''\<rparr>),
       (str ''javascript:alert(1)'',
          \<lparr>protocol = str ''javascript:'', href = str ''javascript:alert(1)''\<rparr>)])
      (Some (str ''no url'')) = []"
  (is "sanitizeURL ?P ?a = _ \<and> sanitizeURL ?P ?b = _ \<and> sanitizeURL ?P ?c = _")
proof -
  have p1: "?P (str ''https://example.org'')
              = Some \<lparr>protocol = str ''https:'', href = str ''https://example.org/''\<rparr>"
    by (simp add: str_eq_iff)
  have p2: "?P (str ''javascript:alert(1)'')
              = Some \<lparr>protocol = str ''javascript:'', href = str ''javascript:alert(1)''\<rparr>"
    by (simp add: str_eq_iff)
  have p3: "?P (str ''no url'') = None"
    by (simp add: str_eq_iff)
  note t = sanitizeURL_http_only[of ?P "Some (str ''no url'')"]
  note pos = t[THEN conjunct2, THEN conjunct1, rule_format]
  note neg = t[THEN conjunct2, THEN conjunct2, THEN conjunct1, rule_format]
  note unp = t[THEN conjunct2, THEN conjunct2, THEN conjunct2, THEN conjunct1, rule_format]
  have "sanitizeURL ?P ?a = str ''https://example.org/''"
    using pos[of "str ''https://example.org''"
        "\<lparr>protocol = str ''https:'', href = str ''https://example.org/''\<rparr>"] p1
    by simp
  moreover have "sanitizeURL ?P ?b = []"
    using neg[of "str ''javascript:alert(1)''"
        "\<lparr>protocol = str ''javascript:'', href = str ''javascript:alert(1)''\<rparr>"] p2
    by (simp add: str_eq_iff)
  moreover have "sanitizeURL ?P ?c = []"
    using unp[of "str ''no url''"] p3 by simp
  ultimately show ?thesis by blast
qed

section \<open>The cache manager\<close>

lemma fold_caches_delete:
  "fold caches_delete ns cs = filter (\<lambda>entry. fst entry \<notin> set ns) cs"
proof (induction ns arbitrary: cs)
  case Nil
  then show ?case by simp
next
  case (Cons n ns)
  have "fold caches_delete (n # ns) cs = fold caches_delete ns (caches_delete n cs)" by simp
  also have "\<dots> = filter (\<lambda>entry. fst entry \<notin> set ns) (caches_delete n cs)"
    by (rule Cons.IH)
  also have "\<dots> = filter (\<lambda>entry. fst entry \<notin> set (n # ns)) cs"
    by (simp add: caches_delete_def)
  finally show ?case .
qed

lemma caches_activate:
  "caches (activate st) = filter (\<lambda>entry. fst entry = CACHE_NAME) (caches st)"
proof -
  have "caches (activate st)
          = filter (\<lambda>entry. fst entry \<notin> set (filter (\<lambda>n. n \<noteq> CACHE_NAME) (map fst (caches st))))
              (caches st)"
    by (simp add: activate_def Let_def caches_keys_def fold_caches_delete)
  also have "\<dots> = filter (\<lambda>entry. fst entry = CACHE_NAME) (caches st)"
    by (rule filter_cong) auto
  finally show ?thesis .
qed

text \<open>
  Claim C5. After the activate handler, the caches left are exactly those named
  \<open>CACHE_NAME\<close>, with their content: every remaining name equals the current version
  tag, and the names deleted are exactly those that differ from it.
\<close>

theorem activate_keeps_current_only:
  "caches (activate st) = filter (\<lambda>entry. fst entry = CACHE_NAME) (caches st)
   \<and> (\<forall>n \<in> set (caches_keys (caches (activate st))). n = CACHE_NAME)
   \<and> set (caches_keys (caches st)) - set (caches_keys (caches (activate st)))
       = {n \<in> set (caches_keys (caches st)). n \<noteq> CACHE_NAME}
   \<and> clients_claimed (activate st)"
proof -
  have a: "caches (activate st) = filter (\<lambda>entry. fst entry = CACHE_NAME) (caches st)"
    by (rule caches_activate)
  have b: "\<forall>n \<in> set (caches_keys (caches (activate st))). n = CACHE_NAME"
    by (auto simp: a caches_keys_def)
  have c: "set (caches_keys (caches st)) - set (caches_keys (caches (activate st)))
       = {n \<in> set (caches_keys (caches st)). n \<noteq> CACHE_NAME}"
    by (force simp: a caches_keys_def)
  have d: "clients_claimed (activate st)" by (simp add: activate_def Let_def)
  from a b c d show ?thesis by blast
qed

theorem activate_keeps_current_only_witness:
  "caches_keys (caches (activate
      \<lparr> caches = [(str ''v1'', 1::nat), (str ''community-resources-v0'', 2),
                  (str ''community-resources-v1'', 3)],
        clients_claimed = False \<rparr>)) = [CACHE_NAME]"
proof -
  let ?st = "\<lparr> caches = [(str ''v1'', 1::nat), (str ''community-resources-v0'', 2),
                  (str ''community-resources-v1'', 3)], clients_claimed = False \<rparr>"
  from activate_keeps_current_only[of ?st]
  have "caches (activate ?st) = filter (\<lambda>entry. fst entry = CACHE_NAME) (caches ?st)"
    by (rule conjunct1)
  then show ?thesis by (simp add: caches_keys_def CACHE_NAME_def str_eq_iff)
qed

section \<open>The filter\<close>

lemma filter_result_Inr:
  "filter_result f xs = Inr r \<Longrightarrow> r = filter (\<lambda>x. f x = Inr True) xs"
proof (induction xs arbitrary: r)
  case Nil
  then show ?case by simp
next
  case (Cons x xs)
  then show ?case by (auto split: sum.splits if_splits)
qed

lemma filter_result_total:
  "\<forall>x \<in> set xs. \<exists>b. f x = Inr b \<Longrightarrow> \<exists>r. filter_result f xs = Inr r"
proof (induction xs)
  case Nil
  then show ?case by simp
next
  case (Cons x xs)
  then obtain b r where "f x = Inr b" "filter_result f xs = Inr r" by auto
  then show ?case by simp
qed

lemma filter_callback_defined:
  "languages p \<noteq> None \<Longrightarrow> \<exists>b. filter_callback lang cat p = Inr b"
  by (auto simp: filter_callback_def Let_def)

lemma filter_callback_True:
  "filter_callback lang cat p = Inr True \<longleftrightarrow>
     community p = Some cat
     \<and> (\<exists>ls. languages p = Some ls \<and> (lang \<in> set ls \<or> str ''English'' \<in> set ls))"
  by (auto simp: filter_callback_def Let_def array_includes_def split: option.splits)

lemma filteredPartners_total:
  assumes "\<forall>p \<in> set ps. languages p \<noteq> None"
  shows "filteredPartners ps lang cat
           = Inr (filter (\<lambda>p. filter_callback lang cat p = Inr True) ps)"
proof -
  from assms have "\<forall>p \<in> set ps. \<exists>b. filter_callback lang cat p = Inr b"
    using filter_callback_defined by blast
  then obtain r where r: "filter_result (filter_callback lang cat) ps = Inr r"
    using filter_result_total by blast
  with filter_result_Inr[OF r] show ?thesis by (simp add: filteredPartners_def)
qed

text \<open>
  Claim C1. For every dataset whose entries carry a \<open>languages\<close> array, every selected
  language and every selected category, the projection exists and includes an entry if
  and only if the entry's category equals the selected category and the selected language
  or the baseline language \<open>English\<close> is among the entry's languages. In particular an
  entry with languages \<open>["English"]\<close> and category \<open>Youth\<close> is in the projection for
  \<open>Greek\<close> and \<open>Youth\<close> and not in the projection for \<open>Greek\<close> and \<open>Arts\<close>.
\<close>

theorem filteredPartners_inclusion:
  assumes "\<forall>p \<in> set ps. languages p \<noteq> None"
  shows "(\<exists>r. filteredPartners ps lang cat = Inr r
            \<and> (\<forall>p. p \<in> set r \<longleftrightarrow>
                  p \<in> set ps \<and> community p = Some cat
                  \<and> (\<exists>ls. languages p = Some ls \<and> (lang \<in> set ls \<or> str ''English'' \<in> set ls))))
         \<and> (\<forall>entry. entry \<in> set ps \<and> languages entry = Some [str ''English'']
                    \<and> community entry = Some (str ''Youth'')
              \<longrightarrow> (\<exists>youth arts.
                     filteredPartners ps (str ''Greek'') (str ''Youth'') = Inr youth
                     \<and> entry \<in> set youth
                     \<and> filteredPartners ps (str ''Greek'') (str ''Arts'') = Inr arts
                     \<and> entry \<notin> set arts))"
proof -
  have eq: "\<And>l c. filteredPartners ps l c
             = Inr (filter (\<lambda>p. filter_callback l c p = Inr True) ps)"
    using assms by (rule filteredPartners_total)
  have a: "\<exists>r. filteredPartners ps lang cat = Inr r
            \<and> (\<forall>p. p \<in> set r \<longleftrightarrow>
                  p \<in> set ps \<and> community p = Some cat
                  \<and> (\<exists>ls. languages p = Some ls \<and> (lang \<in> set ls \<or> str ''English'' \<in> set ls)))"
    by (simp add: eq filter_callback_True)
  have b: "\<exists>youth arts.
             filteredPartners ps (str ''Greek'') (str ''Youth'') = Inr youth
             \<and> entry \<in> set youth
             \<and> filteredPartners ps (str ''Greek'') (str ''Arts'') = Inr arts
             \<and> entry \<notin> set arts"
    if "entry \<in> set ps" "languages entry = Some [str ''English'']"
       "community entry = Some (str ''Youth'')" for entry
    using that by (simp add: eq filter_callback_True str_eq_iff)
  from a b show ?thesis by blast
qed

section \<open>The validator\<close>

lemma validCommunities_nonempty: "c \<in> set validCommunities \<Longrightarrow> c \<noteq> []"
  by (auto simp: validCommunities_def str_def)

lemma well_formed_but_emailD:
  assumes "well_formed_but_email parse p"
  shows "truthy (name p)" "truthy (community p)"
    "languages p \<noteq> None" "description p \<noteq> None" "truthy (address p)" "truthy (phone p)"
    "truthy (website p)" "lat p \<noteq> None" "lng p \<noteq> None"
    "case community p of None \<Rightarrow> False | Some c \<Rightarrow> array_includes validCommunities c"
    "parse (to_string (website p)) \<noteq> None"
    "\<not> (case description p of None \<Rightarrow> True | Some d \<Rightarrow> \<not> truthy (map_of d (str ''English'')))"
  using assms validCommunities_nonempty
  by (auto simp: well_formed_but_email_def truthy_def array_includes_def
      split: option.splits)

lemma missing_field_errors_but_email:
  assumes "well_formed_but_email parse p"
  shows "missing_field_errors index p errs
           = errs
             @ (if num_truthy (lat p) then []
                else [partner_prefix index (to_string (name p)) @ str ''Missing lat''])
             @ (if num_truthy (lng p) then []
                else [partner_prefix index (to_string (name p)) @ str ''Missing lng''])
             @ (if truthy (email p) then []
                else [partner_prefix index (to_string (name p)) @ str ''Missing email''])"
proof -
  note wf = well_formed_but_emailD[OF assms]
  have n: "js_or (name p) (Some (str ''Unknown'')) = name p"
    using wf(1) by (simp add: js_or_def)
  have m: "str ''Missing '' @ str ''email'' = str ''Missing email''"
    "str ''Missing '' @ str ''lat'' = str ''Missing lat''"
    "str ''Missing '' @ str ''lng'' = str ''Missing lng''"
    by (simp_all add: str_def)
  show ?thesis
    by (simp add: missing_field_errors_def requiredFields_def field_truthy_def str_eq_iff
        wf n m)
qed

lemma check_partner_but_email:
  assumes "well_formed_but_email parse p"
  shows "fst (check_partner parse (index, p) acc) = fst acc @ entry_errors (index, p)"
proof -
  note wf = well_formed_but_emailD[OF assms]
  show ?thesis
    by (simp add: check_partner_def Let_def missing_field_errors_but_email[OF assms] wf
        entry_errors_def)
qed

lemma check_partner_warnings:
  "snd (check_partner parse (index, p) acc)
     = snd acc @ (if languages p = None \<or> languages p = Some []
                  then [partner_prefix index (to_string (name p)) @ str ''No languages specified'']
                  else [])"
  by (auto simp: check_partner_def Let_def split: option.splits)


lemma fold_check_partner_errors:
  assumes "\<forall>p \<in> set ps. well_formed_but_email parse p"
  shows "fst (fold (check_partner parse) (enumerate n ps) acc)
           = fst acc @ concat (map entry_errors (enumerate n ps))"
  using assms
proof (induction ps arbitrary: n acc)
  case Nil
  then show ?case by simp
next
  case (Cons p ps)
  then have wf: "well_formed_but_email parse p" by simp
  have "fst (fold (check_partner parse) (enumerate n (p # ps)) acc)
          = fst (fold (check_partner parse) (enumerate (Suc n) ps) (check_partner parse (n, p) acc))"
    by simp
  also have "\<dots> = fst (check_partner parse (n, p) acc)
                    @ concat (map entry_errors (enumerate (Suc n) ps))"
    using Cons by simp
  also have "fst (check_partner parse (n, p) acc) = fst acc @ entry_errors (n, p)"
    by (rule check_partner_but_email[OF wf])
  finally show ?case by simp
qed

lemma concat_map_single:
  assumes "i < length xs" "f (xs ! i) = ys" "\<forall>j < length xs. j \<noteq> i \<longrightarrow> f (xs ! j) = []"
  shows "concat (map f xs) = ys"
proof -
  have xs: "xs = take i xs @ xs ! i # drop (Suc i) xs"
    using assms(1) by (rule id_take_nth_drop)
  have a: "concat (map f (take i xs)) = []"
  proof -
    have "\<forall>x \<in> set (take i xs). f x = []"
    proof
      fix x assume "x \<in> set (take i xs)"
      then obtain j where "j < length (take i xs)" "take i xs ! j = x"
        by (auto simp: in_set_conv_nth)
      then have "j < length xs" "j \<noteq> i" "xs ! j = x" using assms(1) by auto
      with assms(3) show "f x = []" by blast
    qed
    then show ?thesis by simp
  qed
  have b: "concat (map f (drop (Suc i) xs)) = []"
  proof -
    have "\<forall>x \<in> set (drop (Suc i) xs). f x = []"
    proof
      fix x assume "x \<in> set (drop (Suc i) xs)"
      then obtain j where j: "j < length (drop (Suc i) xs)" "drop (Suc i) xs ! j = x"
        by (auto simp: in_set_conv_nth)
      then have "Suc i + j < length xs" "Suc i + j \<noteq> i" "xs ! (Suc i + j) = x" by auto
      with assms(3) show "f x = []" by blast
    qed
    then show ?thesis by simp
  qed
  have "concat (map f xs) = concat (map f (take i xs @ xs ! i # drop (Suc i) xs))"
    using xs by simp
  also have "\<dots> = concat (map f (take i xs)) @ f (xs ! i) @ concat (map f (drop (Suc i) xs))"
    by simp
  also have "\<dots> = ys" by (simp only: a b assms(2) append_Nil append_Nil2)
  finally show ?thesis .
qed

lemma isValid_iff: "isValid (validatePartnerData parse ps) \<longleftrightarrow> errors (validatePartnerData parse ps) = []"
  by (simp add: validatePartnerData_def Let_def)

lemma errors_validate:
  "errors (validatePartnerData parse ps) = fst (fold (check_partner parse) (enumerate 0 ps) ([], []))"
  by (simp add: validatePartnerData_def Let_def)

text \<open>
  Where no coordinate of the dataset is zero or NaN, a missing e-mail is the only error:
  in a dataset whose entries are all well formed apart from the e-mail, where one entry
  lacks its e-mail (the property is missing or empty) and every other entry has a valid
  one, the validator reports exactly the message
  \<open>Partner <index> (<name>): Missing email\<close> of that entry, and \<open>isValid\<close> is false.
  For every dataset, \<open>isValid\<close> is true if and only if the list of errors is empty.
\<close>

lemma missing_email_only_error:
  assumes "i < length ps" and "\<not> truthy (email (ps ! i))"
    and "\<forall>p \<in> set ps. well_formed_but_email parse p"
    and "\<forall>j < length ps. j \<noteq> i \<longrightarrow> valid_email (ps ! j)"
    and "\<forall>p \<in> set ps. truthy_coordinates p"
  shows "errors (validatePartnerData parse ps)
           = [str ''Partner '' @ show_nat i @ str '' ('' @ to_string (name (ps ! i))
                @ str ''): Missing email'']
         \<and> \<not> isValid (validatePartnerData parse ps)
         \<and> (\<forall>parse' qs. isValid (validatePartnerData parse' qs)
                \<longleftrightarrow> errors (validatePartnerData parse' qs) = [])"
proof -
  let ?msg = "partner_prefix i (to_string (name (ps ! i))) @ str ''Missing email''"
  have len: "i < length (enumerate 0 ps)" using assms(1) by simp
  have tc: "\<forall>j < length ps. num_truthy (lat (ps ! j)) \<and> num_truthy (lng (ps ! j))"
    using assms(5) by (simp add: truthy_coordinates_def)
  have at_i: "entry_errors (enumerate 0 ps ! i) = [?msg]"
    using assms(1,2) tc by (simp add: nth_enumerate_eq entry_errors_def)
  have others: "\<forall>j < length (enumerate 0 ps). j \<noteq> i \<longrightarrow> entry_errors (enumerate 0 ps ! j) = []"
    using assms(4) tc by (simp add: nth_enumerate_eq entry_errors_def valid_email_def)
  have "errors (validatePartnerData parse ps) = concat (map entry_errors (enumerate 0 ps))"
    by (simp add: errors_validate fold_check_partner_errors[OF assms(3)])
  also have "\<dots> = [?msg]" using len at_i others by (rule concat_map_single)
  finally have e: "errors (validatePartnerData parse ps) = [?msg]" .
  have m: "?msg = str ''Partner '' @ show_nat i @ str '' ('' @ to_string (name (ps ! i))
                @ str ''): Missing email''"
    by (simp add: partner_prefix_def str_def)
  from e m isValid_iff show ?thesis by simp
qed

lemma indexOf_bounds: "- 1 \<le> indexOf xs x \<and> indexOf xs x < int (length xs)"
  by (induction xs) (auto simp: Let_def)

lemma indexOf_first:
  "j < length xs \<Longrightarrow> indexOf xs (xs ! j) = int j \<longleftrightarrow> xs ! j \<notin> set (take j xs)"
proof (induction xs arbitrary: j)
  case Nil
  then show ?case by simp
next
  case (Cons y ys)
  show ?case
  proof (cases j)
    case 0
    then show ?thesis by simp
  next
    case (Suc k)
    with Cons.prems have k: "k < length ys" by simp
    show ?thesis
    proof (cases "y = ys ! k")
      case True
      with Suc show ?thesis by simp
    next
      case False
      have b: "- 1 \<le> indexOf ys (ys ! k)" using indexOf_bounds[of ys "ys ! k"] by simp
      from False Suc Cons.IH[OF k] b show ?thesis by (auto simp: Let_def)
    qed
  qed
qed

lemma set_find_duplicates:
  "set (find_duplicates xs) = {x. \<exists>i j. i < j \<and> j < length xs \<and> xs ! i = x \<and> xs ! j = x}"
proof -
  have "set (find_duplicates xs)
          = {x. \<exists>j. j < length xs \<and> xs ! j = x \<and> indexOf xs x \<noteq> int j}"
    by (force simp: find_duplicates_def in_set_enumerate_eq image_iff)
  also have "\<dots> = {x. \<exists>j. j < length xs \<and> xs ! j = x \<and> x \<in> set (take j xs)}"
    using indexOf_first by blast
  also have "\<dots> = {x. \<exists>i j. i < j \<and> j < length xs \<and> xs ! i = x \<and> xs ! j = x}"
    by (auto simp: in_set_conv_nth) (metis nth_take order_less_trans)+
  finally show ?thesis .
qed

lemma find_duplicates_Nil_iff: "find_duplicates xs = [] \<longleftrightarrow> distinct xs"
proof -
  have "(\<exists>i j. i < j \<and> j < length xs \<and> xs ! i = xs ! j) \<longleftrightarrow> \<not> distinct xs"
  proof
    assume "\<exists>i j. i < j \<and> j < length xs \<and> xs ! i = xs ! j"
    then obtain i j where ij: "i < j" "j < length xs" "xs ! i = xs ! j" by blast
    then have "i < length xs" "i \<noteq> j" by auto
    with ij show "\<not> distinct xs" using nth_eq_iff_index_eq by blast
  next
    assume "\<not> distinct xs"
    then obtain i j where ij: "i < length xs" "j < length xs" "i \<noteq> j" "xs ! i = xs ! j"
      by (auto simp: distinct_conv_nth)
    show "\<exists>i j. i < j \<and> j < length xs \<and> xs ! i = xs ! j"
    proof (cases "i < j")
      case True
      with ij show ?thesis by blast
    next
      case False
      with ij have "j < i" by simp
      with ij have "j < i \<and> i < length xs \<and> xs ! j = xs ! i" by simp
      then show ?thesis by blast
    qed
  qed
  moreover have "find_duplicates xs = [] \<longleftrightarrow> set (find_duplicates xs) = {}" by simp
  moreover have "set (find_duplicates xs) = {} \<longleftrightarrow> \<not> (\<exists>i j. i < j \<and> j < length xs \<and> xs ! i = xs ! j)"
  proof
    assume e: "set (find_duplicates xs) = {}"
    show "\<not> (\<exists>i j. i < j \<and> j < length xs \<and> xs ! i = xs ! j)"
    proof
      assume "\<exists>i j. i < j \<and> j < length xs \<and> xs ! i = xs ! j"
      then obtain i j where "i < j" "j < length xs" "xs ! i = xs ! j" by blast
      then have "xs ! j \<in> set (find_duplicates xs)" unfolding set_find_duplicates by blast
      with e show False by simp
    qed
  next
    assume n: "\<not> (\<exists>i j. i < j \<and> j < length xs \<and> xs ! i = xs ! j)"
    show "set (find_duplicates xs) = {}"
    proof (rule ccontr)
      assume "set (find_duplicates xs) \<noteq> {}"
      then have "find_duplicates xs \<noteq> []" by simp
      then obtain x where "x \<in> set (find_duplicates xs)"
        by (cases "find_duplicates xs") auto
      then obtain i j where "i < j" "j < length xs" "xs ! i = x" "xs ! j = x"
        unfolding set_find_duplicates by blast
      then have "i < j \<and> j < length xs \<and> xs ! i = xs ! j" by simp
      with n show False by blast
    qed
  qed
  ultimately show ?thesis by blast
qed

lemma fold_set_insert:
  "set (fold (\<lambda>x acc. if x \<in> set acc then acc else acc @ [x]) xs acc) = set acc \<union> set xs
   \<and> (distinct acc \<longrightarrow> distinct (fold (\<lambda>x acc. if x \<in> set acc then acc else acc @ [x]) xs acc))"
  by (induction xs arbitrary: acc) auto

lemma set_set_spread: "set (set_spread xs) = set xs"
  by (simp add: set_spread_def fold_set_insert)

lemma distinct_set_spread: "distinct (set_spread xs)"
  using fold_set_insert[of xs "[]"] by (simp add: set_spread_def)

lemma partner_warning_not_duplicate:
  "\<not> is_duplicate_warning (partner_prefix index nm @ rest)"
  by (simp add: is_duplicate_warning_def partner_prefix_def str_simps cu_def)

lemma duplicate_warning_is: "is_duplicate_warning (str ''Duplicate names found: '' @ rest)"
  by (simp add: is_duplicate_warning_def)

lemma fold_check_partner_warnings:
  "filter is_duplicate_warning (snd (fold (check_partner parse) ips acc))
     = filter is_duplicate_warning (snd acc)"
proof (induction ips arbitrary: acc)
  case Nil
  then show ?case by simp
next
  case (Cons ip ips)
  obtain index p where ip: "ip = (index, p)" by (cases ip)
  have "filter is_duplicate_warning (snd (check_partner parse ip acc))
          = filter is_duplicate_warning (snd acc)"
    by (simp add: ip check_partner_warnings partner_warning_not_duplicate)
  with Cons show ?case by simp
qed

text \<open>
  Claim C9. For every dataset in which two or more entries share a name, the warnings
  contain exactly one duplicate-name warning: the text \<open>Duplicate names found: \<close>
  followed by the duplicated names, each listed once and joined by \<open>, \<close>. The names
  listed are exactly those that occur at two or more positions.
\<close>

theorem duplicate_names_one_warning:
  assumes "\<not> distinct (map name ps)"
  shows "filter is_duplicate_warning (warnings (validatePartnerData parse ps))
           = [str ''Duplicate names found: ''
                @ join (str '', '') (set_spread (find_duplicates (map name ps)))]
         \<and> distinct (set_spread (find_duplicates (map name ps)))
         \<and> set (set_spread (find_duplicates (map name ps)))
             = {n. \<exists>i j. i < j \<and> j < length ps \<and> name (ps ! i) = n \<and> name (ps ! j) = n}"
proof -
  let ?dups = "find_duplicates (map name ps)"
  from assms have ne: "length ?dups > 0" using find_duplicates_Nil_iff by auto
  have w: "warnings (validatePartnerData parse ps)
             = snd (fold (check_partner parse) (enumerate 0 ps) ([], []))
               @ [str ''Duplicate names found: '' @ join (str '', '') (set_spread ?dups)]"
    using ne by (simp add: validatePartnerData_def Let_def)
  have a: "filter is_duplicate_warning (warnings (validatePartnerData parse ps))
           = [str ''Duplicate names found: '' @ join (str '', '') (set_spread ?dups)]"
    by (simp add: w fold_check_partner_warnings duplicate_warning_is)
  have c: "set (set_spread ?dups)
             = {n. \<exists>i j. i < j \<and> j < length ps \<and> name (ps ! i) = n \<and> name (ps ! j) = n}"
  proof -
    have "set (set_spread ?dups)
            = {n. \<exists>i j. i < j \<and> j < length (map name ps)
                       \<and> map name ps ! i = n \<and> map name ps ! j = n}"
      by (simp only: set_set_spread set_find_duplicates)
    also have "\<dots> = {n. \<exists>i j. i < j \<and> j < length ps \<and> name (ps ! i) = n \<and> name (ps ! j) = n}"
    proof (rule Collect_cong, intro iff_exI)
      fix n i j
      show "(i < j \<and> j < length (map name ps) \<and> map name ps ! i = n \<and> map name ps ! j = n)
              \<longleftrightarrow> (i < j \<and> j < length ps \<and> name (ps ! i) = n \<and> name (ps ! j) = n)"
        by (cases "i < j \<and> j < length ps") auto
    qed
    finally show ?thesis .
  qed
  from a c distinct_set_spread show ?thesis by blast
qed

section \<open>The dataset\<close>

lemma str_Nil_iff: "str s = [] \<longleftrightarrow> s = []"
  by (simp add: str_def)

lemma partner_0_fields:
  "name partner_0 = Some (str ''Kurranulla Aboriginal Corporation'')"
  "community partner_0 = Some (str ''First Nations'')"
  "languages partner_0 = Some [str ''English'']"
  "email partner_0 = Some (str ''contact@kurranulla.org.au'')"
  "website partner_0 = Some (str ''https://www.kurranulla.org.au/'')"
  "description partner_0 \<noteq> None"
  by (simp_all add: partner_0_def)

lemma partner_0_email: "regex_test_anchored emailRegex (str ''contact@kurranulla.org.au'')"
  by (simp add: regex_test_anchored_def emailRegex_def str_simps cu_def not_space_or_at_def
      is_whitespace_def)

lemma partner_0_well_formed:
  "parse (to_string (website partner_0)) \<noteq> None \<Longrightarrow> well_formed_but_email parse partner_0"
  "valid_email partner_0"
  "truthy_coordinates partner_0"
  by (simp_all add: well_formed_but_email_def valid_email_def truthy_coordinates_def partner_0_fields partner_0_email
      to_string_def truthy_def validCommunities_def str_eq_iff)
     (simp_all add: partner_0_def num_truthy_def truthy_def str_eq_iff str_Nil_iff)

lemma partner_1_fields:
  "name partner_1 = Some (str ''Metropolitan Local Aboriginal Land Council'')"
  "community partner_1 = Some (str ''First Nations'')"
  "languages partner_1 = Some [str ''English'']"
  "email partner_1 = Some (str ''metrolalc@metrolalc.org.au'')"
  "website partner_1 = Some (str ''https://metrolalc.org.au/'')"
  "description partner_1 \<noteq> None"
  by (simp_all add: partner_1_def)

lemma partner_1_email: "regex_test_anchored emailRegex (str ''metrolalc@metrolalc.org.au'')"
  by (simp add: regex_test_anchored_def emailRegex_def str_simps cu_def not_space_or_at_def
      is_whitespace_def)

lemma partner_1_well_formed:
  "parse (to_string (website partner_1)) \<noteq> None \<Longrightarrow> well_formed_but_email parse partner_1"
  "valid_email partner_1"
  "truthy_coordinates partner_1"
  by (simp_all add: well_formed_but_email_def valid_email_def truthy_coordinates_def partner_1_fields partner_1_email
      to_string_def truthy_def validCommunities_def str_eq_iff)
     (simp_all add: partner_1_def num_truthy_def truthy_def str_eq_iff str_Nil_iff)

lemma partner_2_fields:
  "name partner_2 = Some (str ''3Bridges Burrbangana Program'')"
  "community partner_2 = Some (str ''First Nations'')"
  "languages partner_2 = Some [str ''English'']"
  "email partner_2 = Some (str ''admin@3bridges.org.au'')"
  "website partner_2 = Some (str ''https://3bridges.org.au/'')"
  "description partner_2 \<noteq> None"
  by (simp_all add: partner_2_def)

lemma partner_2_email: "regex_test_anchored emailRegex (str ''admin@3bridges.org.au'')"
  by (simp add: regex_test_anchored_def emailRegex_def str_simps cu_def not_space_or_at_def
      is_whitespace_def)

lemma partner_2_well_formed:
  "parse (to_string (website partner_2)) \<noteq> None \<Longrightarrow> well_formed_but_email parse partner_2"
  "valid_email partner_2"
  "truthy_coordinates partner_2"
  by (simp_all add: well_formed_but_email_def valid_email_def truthy_coordinates_def partner_2_fields partner_2_email
      to_string_def truthy_def validCommunities_def str_eq_iff)
     (simp_all add: partner_2_def num_truthy_def truthy_def str_eq_iff str_Nil_iff)

lemma partner_3_fields:
  "name partner_3 = Some (str ''Shopfront Arts Co-op'')"
  "community partner_3 = Some (str ''Arts'')"
  "languages partner_3 = Some [str ''English'']"
  "email partner_3 = Some (str ''hello@shopfront.org.au'')"
  "website partner_3 = Some (str ''https://shopfront.org.au/'')"
  "description partner_3 \<noteq> None"
  by (simp_all add: partner_3_def)

lemma partner_3_email: "regex_test_anchored emailRegex (str ''hello@shopfront.org.au'')"
  by (simp add: regex_test_anchored_def emailRegex_def str_simps cu_def not_space_or_at_def
      is_whitespace_def)

lemma partner_3_well_formed:
  "parse (to_string (website partner_3)) \<noteq> None \<Longrightarrow> well_formed_but_email parse partner_3"
  "valid_email partner_3"
  "truthy_coordinates partner_3"
  by (simp_all add: well_formed_but_email_def valid_email_def truthy_coordinates_def partner_3_fields partner_3_email
      to_string_def truthy_def validCommunities_def str_eq_iff)
     (simp_all add: partner_3_def num_truthy_def truthy_def str_eq_iff str_Nil_iff)

lemma partner_4_fields:
  "name partner_4 = Some (str ''Bus Stop Films'')"
  "community partner_4 = Some (str ''Arts'')"
  "languages partner_4 = Some [str ''English'']"
  "email partner_4 = Some (str ''hello@busstopfilms.com.au'')"
  "website partner_4 = Some (str ''https://www.busstopfilms.com.au/'')"
  "description partner_4 \<noteq> None"
  by (simp_all add: partner_4_def)

lemma partner_4_email: "regex_test_anchored emailRegex (str ''hello@busstopfilms.com.au'')"
  by (simp add: regex_test_anchored_def emailRegex_def str_simps cu_def not_space_or_at_def
      is_whitespace_def)

lemma partner_4_well_formed:
  "parse (to_string (website partner_4)) \<noteq> None \<Longrightarrow> well_formed_but_email parse partner_4"
  "valid_email partner_4"
  "truthy_coordinates partner_4"
  by (simp_all add: well_formed_but_email_def valid_email_def truthy_coordinates_def partner_4_fields partner_4_email
      to_string_def truthy_def validCommunities_def str_eq_iff)
     (simp_all add: partner_4_def num_truthy_def truthy_def str_eq_iff str_Nil_iff)

lemma partner_5_fields:
  "name partner_5 = Some (str ''PCYC St George'')"
  "community partner_5 = Some (str ''Youth'')"
  "languages partner_5 = Some [str ''English'']"
  "email partner_5 = Some (str ''stgeorge@pcycnsw.org.au'')"
  "website partner_5 = Some (str ''https://www.pcycnsw.org.au/st-george'')"
  "description partner_5 \<noteq> None"
  by (simp_all add: partner_5_def)

lemma partner_5_email: "regex_test_anchored emailRegex (str ''stgeorge@pcycnsw.org.au'')"
  by (simp add: regex_test_anchored_def emailRegex_def str_simps cu_def not_space_or_at_def
      is_whitespace_def)

lemma partner_5_well_formed:
  "parse (to_string (website partner_5)) \<noteq> None \<Longrightarrow> well_formed_but_email parse partner_5"
  "valid_email partner_5"
  "truthy_coordinates partner_5"
  by (simp_all add: well_formed_but_email_def valid_email_def truthy_coordinates_def partner_5_fields partner_5_email
      to_string_def truthy_def validCommunities_def str_eq_iff)
     (simp_all add: partner_5_def num_truthy_def truthy_def str_eq_iff str_Nil_iff)

lemma partner_6_fields:
  "name partner_6 = Some (str ''Headspace Hurstville'')"
  "community partner_6 = Some (str ''Health & Wellbeing'')"
  "languages partner_6 = Some [str ''English'']"
  "email partner_6 = Some (str ''headspace.hurstville@stride.com.au'')"
  "website partner_6 = Some (str ''https://headspace.org.au/headspace-centres/hurstville/'')"
  "description partner_6 \<noteq> None"
  by (simp_all add: partner_6_def)

lemma partner_6_email: "regex_test_anchored emailRegex (str ''headspace.hurstville@stride.com.au'')"
  by (simp add: regex_test_anchored_def emailRegex_def str_simps cu_def not_space_or_at_def
      is_whitespace_def)

lemma partner_6_well_formed:
  "parse (to_string (website partner_6)) \<noteq> None \<Longrightarrow> well_formed_but_email parse partner_6"
  "valid_email partner_6"
  "truthy_coordinates partner_6"
  by (simp_all add: well_formed_but_email_def valid_email_def truthy_coordinates_def partner_6_fields partner_6_email
      to_string_def truthy_def validCommunities_def str_eq_iff)
     (simp_all add: partner_6_def num_truthy_def truthy_def str_eq_iff str_Nil_iff)

lemma partner_7_fields:
  "name partner_7 = Some (str ''Lifeline'')"
  "community partner_7 = Some (str ''Health & Wellbeing'')"
  "languages partner_7 = Some [str ''English'']"
  "email partner_7 = Some (str ''info@lifeline.org.au'')"
  "website partner_7 = Some (str ''https://www.lifeline.org.au/'')"
  "description partner_7 \<noteq> None"
  by (simp_all add: partner_7_def)

lemma partner_7_email: "regex_test_anchored emailRegex (str ''info@lifeline.org.au'')"
  by (simp add: regex_test_anchored_def emailRegex_def str_simps cu_def not_space_or_at_def
      is_whitespace_def)

lemma partner_7_well_formed:
  "parse (to_string (website partner_7)) \<noteq> None \<Longrightarrow> well_formed_but_email parse partner_7"
  "valid_email partner_7"
  "truthy_coordinates partner_7"
  by (simp_all add: well_formed_but_email_def valid_email_def truthy_coordinates_def partner_7_fields partner_7_email
      to_string_def truthy_def validCommunities_def str_eq_iff)
     (simp_all add: partner_7_def num_truthy_def truthy_def str_eq_iff str_Nil_iff)

lemma partner_8_fields:
  "name partner_8 = Some (str ''Carers NSW'')"
  "community partner_8 = Some (str ''Carers Support Services'')"
  "languages partner_8 = Some [str ''English'']"
  "email partner_8 = Some (str ''contact@carersnsw.org.au'')"
  "website partner_8 = Some (str ''https://www.carersnsw.org.au/'')"
  "description partner_8 \<noteq> None"
  by (simp_all add: partner_8_def)

lemma partner_8_email: "regex_test_anchored emailRegex (str ''contact@carersnsw.org.au'')"
  by (simp add: regex_test_anchored_def emailRegex_def str_simps cu_def not_space_or_at_def
      is_whitespace_def)

lemma partner_8_well_formed:
  "parse (to_string (website partner_8)) \<noteq> None \<Longrightarrow> well_formed_but_email parse partner_8"
  "valid_email partner_8"
  "truthy_coordinates partner_8"
  by (simp_all add: well_formed_but_email_def valid_email_def truthy_coordinates_def partner_8_fields partner_8_email
      to_string_def truthy_def validCommunities_def str_eq_iff)
     (simp_all add: partner_8_def num_truthy_def truthy_def str_eq_iff str_Nil_iff)

lemma partner_9_fields:
  "name partner_9 = Some (str ''St George Family Support Services'')"
  "community partner_9 = Some (str ''Children & Families'')"
  "languages partner_9 = Some [str ''English'']"
  "email partner_9 = Some (str ''information@sgfss.org.au'')"
  "website partner_9 = Some (str ''https://www.sgfss.org.au/'')"
  "description partner_9 \<noteq> None"
  by (simp_all add: partner_9_def)

lemma partner_9_email: "regex_test_anchored emailRegex (str ''information@sgfss.org.au'')"
  by (simp add: regex_test_anchored_def emailRegex_def str_simps cu_def not_space_or_at_def
      is_whitespace_def)

lemma partner_9_well_formed:
  "parse (to_string (website partner_9)) \<noteq> None \<Longrightarrow> well_formed_but_email parse partner_9"
  "valid_email partner_9"
  "truthy_coordinates partner_9"
  by (simp_all add: well_formed_but_email_def valid_email_def truthy_coordinates_def partner_9_fields partner_9_email
      to_string_def truthy_def validCommunities_def str_eq_iff)
     (simp_all add: partner_9_def num_truthy_def truthy_def str_eq_iff str_Nil_iff)

lemma partner_10_fields:
  "name partner_10 = Some (str ''Tresillian'')"
  "community partner_10 = Some (str ''Children & Families'')"
  "languages partner_10 = Some [str ''English'']"
  "email partner_10 = Some (str ''enquiries@tresillian.org.au'')"
  "website partner_10 = Some (str ''https://www.tresillian.org.au/'')"
  "description partner_10 \<noteq> None"
  by (simp_all add: partner_10_def)

lemma partner_10_email: "regex_test_anchored emailRegex (str ''enquiries@tresillian.org.au'')"
  by (simp add: regex_test_anchored_def emailRegex_def str_simps cu_def not_space_or_at_def
      is_whitespace_def)

lemma partner_10_well_formed:
  "parse (to_string (website partner_10)) \<noteq> None \<Longrightarrow> well_formed_but_email parse partner_10"
  "valid_email partner_10"
  "truthy_coordinates partner_10"
  by (simp_all add: well_formed_but_email_def valid_email_def truthy_coordinates_def partner_10_fields partner_10_email
      to_string_def truthy_def validCommunities_def str_eq_iff)
     (simp_all add: partner_10_def num_truthy_def truthy_def str_eq_iff str_Nil_iff)

lemma partner_11_fields:
  "name partner_11 = Some (str ''3Bridges Community'')"
  "community partner_11 = Some (str ''Community Support'')"
  "languages partner_11 = Some [str ''English'']"
  "email partner_11 = Some (str ''admin@3bridges.org.au'')"
  "website partner_11 = Some (str ''https://3bridges.org.au/'')"
  "description partner_11 \<noteq> None"
  by (simp_all add: partner_11_def)

lemma partner_11_email: "regex_test_anchored emailRegex (str ''admin@3bridges.org.au'')"
  by (simp add: regex_test_anchored_def emailRegex_def str_simps cu_def not_space_or_at_def
      is_whitespace_def)

lemma partner_11_well_formed:
  "parse (to_string (website partner_11)) \<noteq> None \<Longrightarrow> well_formed_but_email parse partner_11"
  "valid_email partner_11"
  "truthy_coordinates partner_11"
  by (simp_all add: well_formed_but_email_def valid_email_def truthy_coordinates_def partner_11_fields partner_11_email
      to_string_def truthy_def validCommunities_def str_eq_iff)
     (simp_all add: partner_11_def num_truthy_def truthy_def str_eq_iff str_Nil_iff)

lemma partner_12_fields:
  "name partner_12 = Some (str ''Northcott'')"
  "community partner_12 = Some (str ''Disability Services'')"
  "languages partner_12 = Some [str ''English'']"
  "email partner_12 = Some (str ''northcott@northcott.com.au'')"
  "website partner_12 = Some (str ''https://northcott.com.au/'')"
  "description partner_12 \<noteq> None"
  by (simp_all add: partner_12_def)

lemma partner_12_email: "regex_test_anchored emailRegex (str ''northcott@northcott.com.au'')"
  by (simp add: regex_test_anchored_def emailRegex_def str_simps cu_def not_space_or_at_def
      is_whitespace_def)

lemma partner_12_well_formed:
  "parse (to_string (website partner_12)) \<noteq> None \<Longrightarrow> well_formed_but_email parse partner_12"
  "valid_email partner_12"
  "truthy_coordinates partner_12"
  by (simp_all add: well_formed_but_email_def valid_email_def truthy_coordinates_def partner_12_fields partner_12_email
      to_string_def truthy_def validCommunities_def str_eq_iff)
     (simp_all add: partner_12_def num_truthy_def truthy_def str_eq_iff str_Nil_iff)

lemma partner_13_fields:
  "name partner_13 = Some (str ''1800RESPECT'')"
  "community partner_13 = Some (str ''Domestic Violence'')"
  "languages partner_13 = Some [str ''English'']"
  "email partner_13 = Some (str ''info@1800respect.org.au'')"
  "website partner_13 = Some (str ''https://www.1800respect.org.au/'')"
  "description partner_13 \<noteq> None"
  by (simp_all add: partner_13_def)

lemma partner_13_email: "regex_test_anchored emailRegex (str ''info@1800respect.org.au'')"
  by (simp add: regex_test_anchored_def emailRegex_def str_simps cu_def not_space_or_at_def
      is_whitespace_def)

lemma partner_13_well_formed:
  "parse (to_string (website partner_13)) \<noteq> None \<Longrightarrow> well_formed_but_email parse partner_13"
  "valid_email partner_13"
  "truthy_coordinates partner_13"
  by (simp_all add: well_formed_but_email_def valid_email_def truthy_coordinates_def partner_13_fields partner_13_email
      to_string_def truthy_def validCommunities_def str_eq_iff)
     (simp_all add: partner_13_def num_truthy_def truthy_def str_eq_iff str_Nil_iff)

lemma partner_14_fields:
  "name partner_14 = Some (str ''Salvation Army Hurstville'')"
  "community partner_14 = Some (str ''Food & Emergency Support'')"
  "languages partner_14 = Some [str ''English'']"
  "email partner_14 = Some (str ''hurstvillesalvos@salvationarmy.org.au'')"
  "website partner_14 = Some (str ''https://www.salvationarmy.org.au/hurstville'')"
  "description partner_14 \<noteq> None"
  by (simp_all add: partner_14_def)

lemma partner_14_email: "regex_test_anchored emailRegex (str ''hurstvillesalvos@salvationarmy.org.au'')"
  by (simp add: regex_test_anchored_def emailRegex_def str_simps cu_def not_space_or_at_def
      is_whitespace_def)

lemma partner_14_well_formed:
  "parse (to_string (website partner_14)) \<noteq> None \<Longrightarrow> well_formed_but_email parse partner_14"
  "valid_email partner_14"
  "truthy_coordinates partner_14"
  by (simp_all add: well_formed_but_email_def valid_email_def truthy_coordinates_def partner_14_fields partner_14_email
      to_string_def truthy_def validCommunities_def str_eq_iff)
     (simp_all add: partner_14_def num_truthy_def truthy_def str_eq_iff str_Nil_iff)

lemma partner_15_fields:
  "name partner_15 = Some (str ''Bayside Council'')"
  "community partner_15 = Some (str ''Government Departments'')"
  "languages partner_15 = Some [str ''English'']"
  "email partner_15 = Some (str ''council@bayside.nsw.gov.au'')"
  "website partner_15 = Some (str ''https://www.bayside.nsw.gov.au/'')"
  "description partner_15 \<noteq> None"
  by (simp_all add: partner_15_def)

lemma partner_15_email: "regex_test_anchored emailRegex (str ''council@bayside.nsw.gov.au'')"
  by (simp add: regex_test_anchored_def emailRegex_def str_simps cu_def not_space_or_at_def
      is_whitespace_def)

lemma partner_15_well_formed:
  "parse (to_string (website partner_15)) \<noteq> None \<Longrightarrow> well_formed_but_email parse partner_15"
  "valid_email partner_15"
  "truthy_coordinates partner_15"
  by (simp_all add: well_formed_but_email_def valid_email_def truthy_coordinates_def partner_15_fields partner_15_email
      to_string_def truthy_def validCommunities_def str_eq_iff)
     (simp_all add: partner_15_def num_truthy_def truthy_def str_eq_iff str_Nil_iff)

lemma partner_16_fields:
  "name partner_16 = Some (str ''ACON'')"
  "community partner_16 = Some (str ''LGBTQIA+'')"
  "languages partner_16 = Some [str ''English'']"
  "email partner_16 = Some (str ''acon@acon.org.au'')"
  "website partner_16 = Some (str ''https://www.acon.org.au/'')"
  "description partner_16 \<noteq> None"
  by (simp_all add: partner_16_def)

lemma partner_16_email: "regex_test_anchored emailRegex (str ''acon@acon.org.au'')"
  by (simp add: regex_test_anchored_def emailRegex_def str_simps cu_def not_space_or_at_def
      is_whitespace_def)

lemma partner_16_well_formed:
  "parse (to_string (website partner_16)) \<noteq> None \<Longrightarrow> well_formed_but_email parse partner_16"
  "valid_email partner_16"
  "truthy_coordinates partner_16"
  by (simp_all add: well_formed_but_email_def valid_email_def truthy_coordinates_def partner_16_fields partner_16_email
      to_string_def truthy_def validCommunities_def str_eq_iff)
     (simp_all add: partner_16_def num_truthy_def truthy_def str_eq_iff str_Nil_iff)

lemma partner_17_fields:
  "name partner_17 = Some (str ''Advance Diversity Services'')"
  "community partner_17 = Some (str ''Multicultural'')"
  "languages partner_17 = Some [str ''English'']"
  "email partner_17 = Some (str ''info@advancediversity.org.au'')"
  "website partner_17 = Some (str ''https://www.advancediversity.org.au/'')"
  "description partner_17 \<noteq> None"
  by (simp_all add: partner_17_def)

lemma partner_17_email: "regex_test_anchored emailRegex (str ''info@advancediversity.org.au'')"
  by (simp add: regex_test_anchored_def emailRegex_def str_simps cu_def not_space_or_at_def
      is_whitespace_def)

lemma partner_17_well_formed:
  "parse (to_string (website partner_17)) \<noteq> None \<Longrightarrow> well_formed_but_email parse partner_17"
  "valid_email partner_17"
  "truthy_coordinates partner_17"
  by (simp_all add: well_formed_but_email_def valid_email_def truthy_coordinates_def partner_17_fields partner_17_email
      to_string_def truthy_def validCommunities_def str_eq_iff)
     (simp_all add: partner_17_def num_truthy_def truthy_def str_eq_iff str_Nil_iff)

lemmas partners_well_formed =
  partner_0_well_formed partner_1_well_formed partner_2_well_formed partner_3_well_formed
  partner_4_well_formed partner_5_well_formed partner_6_well_formed partner_7_well_formed
  partner_8_well_formed partner_9_well_formed partner_10_well_formed partner_11_well_formed
  partner_12_well_formed partner_13_well_formed partner_14_well_formed partner_15_well_formed
  partner_16_well_formed partner_17_well_formed

lemmas partners_fields =
  partner_0_fields partner_1_fields partner_2_fields partner_3_fields partner_4_fields
  partner_5_fields partner_6_fields partner_7_fields partner_8_fields partner_9_fields
  partner_10_fields partner_11_fields partner_12_fields partner_13_fields partner_14_fields
  partner_15_fields partner_16_fields partner_17_fields

lemma fold_check_partner_no_warnings:
  assumes "\<forall>p \<in> set ps. languages p \<noteq> None \<and> languages p \<noteq> Some []"
  shows "snd (fold (check_partner parse) (enumerate n ps) acc) = snd acc"
  using assms
proof (induction ps arbitrary: n acc)
  case Nil
  then show ?case by simp
next
  case (Cons p ps)
  then have "snd (check_partner parse (n, p) acc) = snd acc"
    by (simp add: check_partner_warnings)
  with Cons show ?case by simp
qed

lemma valid_email_no_errors:
  "valid_email (snd ip) \<Longrightarrow> truthy_coordinates (snd ip) \<Longrightarrow> entry_errors ip = []"
  by (simp add: entry_errors_def valid_email_def truthy_coordinates_def)

lemma validate_clean:
  assumes wf: "\<forall>p \<in> set ps. well_formed_but_email parse p"
    and em: "\<forall>p \<in> set ps. valid_email p"
    and tc: "\<forall>p \<in> set ps. truthy_coordinates p"
    and la: "\<forall>p \<in> set ps. languages p \<noteq> None \<and> languages p \<noteq> Some []"
    and di: "distinct (map name ps)"
  shows "validatePartnerData parse ps = \<lparr> errors = [], warnings = [], isValid = True \<rparr>"
proof -
  have "\<forall>ip \<in> set (enumerate 0 ps). entry_errors ip = []"
  proof
    fix ip assume "ip \<in> set (enumerate 0 ps)"
    then have "fst ip < length ps" "snd ip = ps ! fst ip"
      by (auto simp: in_set_enumerate_eq)
    then have "snd ip \<in> set ps" by simp
    with em tc show "entry_errors ip = []" using valid_email_no_errors by blast
  qed
  then have e: "fst (fold (check_partner parse) (enumerate 0 ps) ([], [])) = []"
    by (simp add: fold_check_partner_errors[OF wf])
  have w: "snd (fold (check_partner parse) (enumerate 0 ps) ([], [])) = []"
    by (simp add: fold_check_partner_no_warnings[OF la])
  have d: "find_duplicates (map name ps) = []"
    using di by (simp add: find_duplicates_Nil_iff)
  show ?thesis by (simp add: validatePartnerData_def Let_def e w d)
qed

lemma partners_distinct_names: "distinct (map name partners)"
  by (simp add: partners_def partners_fields str_eq_iff)

text \<open>
  Claim C10. The hardcoded dataset of eighteen entries passes validation: for a URL
  parser that accepts the eighteen website strings, \<open>validatePartnerData\<close> returns no
  error, no warning and \<open>isValid = true\<close>. Every entry has its required fields, a category
  among the thirteen, a valid e-mail, an English description and a non-empty list of
  languages, and no two entries share a name.
\<close>

theorem partners_pass_validation:
  assumes "\<forall>p \<in> set partners. parse (to_string (website p)) \<noteq> None"
  shows "validatePartnerData parse partners = \<lparr> errors = [], warnings = [], isValid = True \<rparr>
         \<and> length partners = 18
         \<and> (\<forall>p \<in> set partners. well_formed_but_email parse p \<and> truthy_coordinates p
                \<and> valid_email p \<and> (\<exists>l ls. languages p = Some (l # ls)))
         \<and> distinct (map name partners)"
proof -
  from assms have wf: "\<forall>p \<in> set partners. well_formed_but_email parse p"
    by (simp add: partners_def partners_well_formed)
  have em: "\<forall>p \<in> set partners. valid_email p"
    by (simp add: partners_def partners_well_formed)
  have tc: "\<forall>p \<in> set partners. truthy_coordinates p"
    by (simp add: partners_def partners_well_formed)
  have la: "\<forall>p \<in> set partners. \<exists>l ls. languages p = Some (l # ls)"
    by (simp add: partners_def partners_fields)
  then have la': "\<forall>p \<in> set partners. languages p \<noteq> None \<and> languages p \<noteq> Some []"
    by auto
  have "validatePartnerData parse partners = \<lparr> errors = [], warnings = [], isValid = True \<rparr>"
    using wf em tc la' partners_distinct_names by (rule validate_clean)
  moreover have "length partners = 18" by (simp add: partners_def)
  ultimately show ?thesis using wf em tc la partners_distinct_names by blast
qed

theorem partners_pass_validation_witness:
  "validatePartnerData (\<lambda>s. Some \<lparr> protocol = str ''https:'', href = s \<rparr>) partners
     = \<lparr> errors = [], warnings = [], isValid = True \<rparr>"
  using partners_pass_validation[of "\<lambda>s. Some \<lparr> protocol = str ''https:'', href = s \<rparr>"]
  by simp

lemma partner_5_in_partners: "partner_5 \<in> set partners"
  by (simp add: partners_def)

lemma partners_languages: "\<forall>p \<in> set partners. languages p \<noteq> None"
  by (simp add: partners_def partners_fields)

theorem filteredPartners_inclusion_witness:
  "\<exists>youth arts.
      filteredPartners partners (str ''Greek'') (str ''Youth'') = Inr youth
      \<and> partner_5 \<in> set youth
      \<and> filteredPartners partners (str ''Greek'') (str ''Arts'') = Inr arts
      \<and> partner_5 \<notin> set arts"
  using filteredPartners_inclusion[OF partners_languages, of "str ''Greek''" "str ''Youth''"]
    partner_5_in_partners partner_5_fields
  by blast

lemma str_append: "str a @ str b = str (a @ b)"
  by (simp add: str_def)

lemma show_nat_0: "show_nat 0 = str ''0''"
  by (simp add: show_nat.simps str_def cu_def)

lemma missing_email_only_error_example:
  "errors (validatePartnerData (\<lambda>s. Some \<lparr> protocol = str ''https:'', href = s \<rparr>)
             [partner_0\<lparr> email := None \<rparr>, partner_1])
     = [str ''Partner 0 (Kurranulla Aboriginal Corporation): Missing email'']
   \<and> \<not> isValid (validatePartnerData (\<lambda>s. Some \<lparr> protocol = str ''https:'', href = s \<rparr>)
                  [partner_0\<lparr> email := None \<rparr>, partner_1])"
proof -
  let ?P = "\<lambda>s. Some \<lparr> protocol = str ''https:'', href = s \<rparr>"
  let ?ps = "[partner_0\<lparr> email := None \<rparr>, partner_1]"
  have i: "0 < length ?ps" by simp
  have e: "\<not> truthy (email (?ps ! 0))" by (simp add: truthy_def)
  have "well_formed_but_email ?P (partner_0\<lparr> email := None \<rparr>) = well_formed_but_email ?P partner_0"
    by (simp add: well_formed_but_email_def)
  then have wf: "\<forall>p \<in> set ?ps. well_formed_but_email ?P p"
    by (simp add: partner_0_well_formed partner_1_well_formed)
  have "truthy_coordinates (partner_0\<lparr> email := None \<rparr>) = truthy_coordinates partner_0"
    by (simp add: truthy_coordinates_def)
  then have tc: "\<forall>p \<in> set ?ps. truthy_coordinates p"
    by (simp add: partner_0_well_formed partner_1_well_formed)
  have others: "\<forall>j < length ?ps. j \<noteq> 0 \<longrightarrow> valid_email (?ps ! j)"
    by (simp add: less_Suc_eq partner_1_well_formed)
  have n: "name (?ps ! 0) = Some (str ''Kurranulla Aboriginal Corporation'')"
    by (simp add: partner_0_fields)
  have m: "str ''Partner '' @ show_nat 0 @ str '' ('' @ to_string (name (?ps ! 0))
             @ str ''): Missing email''
           = str ''Partner 0 (Kurranulla Aboriginal Corporation): Missing email''"
    by (simp only: n show_nat_0 to_string_def option.case str_append) simp
  from missing_email_only_error[OF i e wf others tc] m show ?thesis by simp
qed

text \<open>
  Claim C3. The validator's result has \<open>isValid\<close> true exactly when its list of errors is
  empty, and an entry without e-mail is reported by one error naming its index, its name
  and the field. That error is not the only one for every dataset that is otherwise well
  formed: the presence test \<open>!partner[field]\<close> also holds for a coordinate that is the
  number 0. The entry below is the second entry of the dataset moved to latitude 0, with
  its e-mail removed; it is well formed apart from the e-mail, and the validator reports
  two errors for it, \<open>Missing lat\<close> and \<open>Missing email\<close>.
\<close>

theorem validator_zero_coordinate:
  "well_formed_but_email (\<lambda>s. Some \<lparr> protocol = str ''https:'', href = s \<rparr>)
      (partner_1\<lparr> lat := Some (Finite 0), email := None \<rparr>)
   \<and> email (partner_1\<lparr> lat := Some (Finite 0), email := None \<rparr>) = None
   \<and> errors (validatePartnerData (\<lambda>s. Some \<lparr> protocol = str ''https:'', href = s \<rparr>)
               [partner_1\<lparr> lat := Some (Finite 0), email := None \<rparr>])
       = [str ''Partner 0 (Metropolitan Local Aboriginal Land Council): Missing lat'',
          str ''Partner 0 (Metropolitan Local Aboriginal Land Council): Missing email'']
   \<and> isValid (validatePartnerData (\<lambda>s. Some \<lparr> protocol = str ''https:'', href = s \<rparr>)
               [partner_1\<lparr> lat := Some (Finite 0), email := None \<rparr>]) = False"
proof -
  let ?P = "\<lambda>s. Some \<lparr> protocol = str ''https:'', href = s \<rparr>"
  let ?p = "partner_1\<lparr> lat := Some (Finite 0), email := None \<rparr>"
  have wf1: "well_formed_but_email ?P partner_1"
    by (simp add: partner_1_well_formed)
  then have wf: "well_formed_but_email ?P ?p"
    by (simp add: well_formed_but_email_def)
  have n: "name ?p = Some (str ''Metropolitan Local Aboriginal Land Council'')"
    by (simp add: partner_1_fields)
  have lng: "num_truthy (lng ?p)"
    using partner_1_well_formed(3) by (simp add: truthy_coordinates_def)
  have "errors (validatePartnerData ?P [?p]) = entry_errors (0, ?p)"
    by (simp add: errors_validate check_partner_but_email[OF wf])
  also have "\<dots> = [partner_prefix 0 (to_string (name ?p)) @ str ''Missing lat'',
                   partner_prefix 0 (to_string (name ?p)) @ str ''Missing email'']"
    using lng by (simp add: entry_errors_def num_truthy_def truthy_def)
  also have "\<dots> = [str ''Partner 0 (Metropolitan Local Aboriginal Land Council): Missing lat'',
          str ''Partner 0 (Metropolitan Local Aboriginal Land Council): Missing email'']"
    by (simp only: n partner_prefix_def show_nat_0 to_string_def option.case str_append) simp
  finally have e: "errors (validatePartnerData ?P [?p])
       = [str ''Partner 0 (Metropolitan Local Aboriginal Land Council): Missing lat'',
          str ''Partner 0 (Metropolitan Local Aboriginal Land Council): Missing email'']" .
  then have v: "isValid (validatePartnerData ?P [?p]) = False"
    by (simp add: isValid_iff)
  have em: "email ?p = None" by simp
  from wf em e v show ?thesis by blast
qed

theorem duplicate_names_one_warning_witness:
  "filter is_duplicate_warning
     (warnings (validatePartnerData (\<lambda>s. Some \<lparr> protocol = str ''https:'', href = s \<rparr>)
                  [partner_0, partner_1, partner_0]))
     = [str ''Duplicate names found: Kurranulla Aboriginal Corporation'']"
proof -
  let ?P = "\<lambda>s. Some \<lparr> protocol = str ''https:'', href = s \<rparr>"
  let ?ps = "[partner_0, partner_1, partner_0]"
  have nd: "\<not> distinct (map name ?ps)" by simp
  have d: "find_duplicates (map name ?ps) = [Some (str ''Kurranulla Aboriginal Corporation'')]"
    by (simp add: find_duplicates_def partner_0_fields partner_1_fields str_eq_iff)
  have j: "str ''Duplicate names found: '' @ join (str '', '') (set_spread (find_duplicates (map name ?ps)))
           = str ''Duplicate names found: Kurranulla Aboriginal Corporation''"
    by (simp only: d) (simp add: set_spread_def str_append)
  from duplicate_names_one_warning[OF nd, of ?P] j show ?thesis by simp
qed

section \<open>The QR generator\<close>

lemma generateQrCode_returns: "\<exists>el. generateQrCode e url = Inr el"
  by (simp add: generateQrCode_def split: sum.splits)

lemma generateQrCode_catch:
  "qr_try e url = Inl err \<Longrightarrow> generateQrCode e url = Inr (qr_placeholder url)"
  by (simp add: generateQrCode_def)

text \<open>
  Claim C4, as amended. For every URL string the QR generator returns an element and
  raises nothing. The element is the placeholder, whose title is \<open>QR code for \<close> followed
  by the raw URL, whenever the security manager is present and the URL fails
  sanitization, or the security manager is absent and the URL does not parse, or the QR
  library is missing, or encoding throws, or the canvas gives no drawing context.
\<close>

theorem generateQrCode_placeholder:
  "(\<exists>el. generateQrCode e (Some url) = Inr el)
   \<and> ((security e \<and> sanitizeURL (parseURL e) (Some url) = [])
        \<or> (\<not> security e \<and> parseURL e url = None)
        \<or> qrcode e = None
        \<or> (\<exists>encode err. qrcode e = Some encode
              \<and> encode (if security e then sanitizeURL (parseURL e) (Some url) else url) = Inl err)
        \<or> \<not> canvas2d e
       \<longrightarrow> generateQrCode e (Some url)
             = Inr (QrPlaceholder (str ''QR Code'') (str ''QR code for '' @ url)))"
proof -
  have "\<exists>err. qr_try e (Some url) = Inl err"
    if "(security e \<and> sanitizeURL (parseURL e) (Some url) = [])
        \<or> (\<not> security e \<and> parseURL e url = None)
        \<or> qrcode e = None
        \<or> (\<exists>encode err. qrcode e = Some encode
              \<and> encode (if security e then sanitizeURL (parseURL e) (Some url) else url) = Inl err)
        \<or> \<not> canvas2d e"
    using that
    by (cases "security e")
       (auto simp: qr_try_def Let_def to_string_def split: option.splits sum.splits)
  then show ?thesis
    using generateQrCode_returns generateQrCode_catch
    by (auto simp: qr_placeholder_def to_string_def)
qed

theorem generateQrCode_placeholder_witness:
  "generateQrCode \<lparr> security = True, parseURL = (\<lambda>s. None),
                    qrcode = Some (\<lambda>s. Inr \<lparr> moduleCount = 21, isDark = (\<lambda>r c. False) \<rparr>),
                    canvas2d = True \<rparr> (Some (str ''not a url''))
     = Inr (QrPlaceholder (str ''QR Code'') (str ''QR code for not a url''))"
proof -
  let ?e = "\<lparr> security = True, parseURL = (\<lambda>s. None),
                    qrcode = Some (\<lambda>s. Inr \<lparr> moduleCount = 21, isDark = (\<lambda>r c. False) \<rparr>),
                    canvas2d = True \<rparr>"
  have "security ?e \<and> sanitizeURL (parseURL ?e) (Some (str ''not a url'')) = []"
    by (simp add: sanitizeURL_def)
  with generateQrCode_placeholder[of ?e "str ''not a url''"]
  have "generateQrCode ?e (Some (str ''not a url''))
          = Inr (QrPlaceholder (str ''QR Code'') (str ''QR code for '' @ str ''not a url''))"
    by blast
  then show ?thesis by (simp add: str_def)
qed

text \<open>
  Without the security manager the generator only checks that the URL parses: a
  \<open>javascript:\<close> URL, which \<open>sanitizeURL\<close> rejects, is encoded into an image.
\<close>

theorem generateQrCode_unsanitized_counterexample:
  "sanitizeURL
      (map_of [(str ''javascript:alert(1)'',
                \<lparr> protocol = str ''javascript:'', href = str ''javascript:alert(1)'' \<rparr>)])
      (Some (str ''javascript:alert(1)'')) = []
   \<and> generateQrCode
        \<lparr> security = False,
          parseURL = map_of [(str ''javascript:alert(1)'',
                \<lparr> protocol = str ''javascript:'', href = str ''javascript:alert(1)'' \<rparr>)],
          qrcode = Some (\<lambda>s. Inr \<lparr> moduleCount = 21, isDark = (\<lambda>r c. False) \<rparr>),
          canvas2d = True \<rparr>
        (Some (str ''javascript:alert(1)''))
      = Inr (QrImage (draw_qr \<lparr> moduleCount = 21, isDark = (\<lambda>r c. False) \<rparr>)
               (str ''QR code for javascript:alert(1)''))"
  by (simp add: sanitizeURL_def generateQrCode_def qr_try_def to_string_def array_includes_def
      str_eq_iff str_append)

section \<open>The renderer\<close>

lemma currentTranslations_listHeader:
  "currentTranslations (st\<lparr> listHeader := h \<rparr>) = currentTranslations st"
  by (simp add: currentTranslations_def cong: property.case_cong)

lemma set_list_header_cases:
  assumes "set_list_header s1 = Inr s2"
  shows "s2 = s1 \<or> (\<exists>h. listHeader s1 \<noteq> None \<and> s2 = s1\<lparr> listHeader := h \<rparr>)"
  using assms by (auto simp: set_list_header_def split: if_splits sum.splits)

lemma set_list_header_again:
  assumes "set_list_header s1 = Inr s2"
  shows "set_list_header s2 = Inr s2"
proof (cases "listHeader s1 = None")
  case True
  with assms show ?thesis by (simp add: set_list_header_def)
next
  case False
  with assms obtain v where v: "read_label (currentTranslations s1) (str ''listHeader'') = Inr v"
    and s2: "s2 = s1\<lparr> listHeader := Some v \<rparr>"
    by (auto simp: set_list_header_def split: sum.splits)
  show ?thesis
    by (simp add: s2 set_list_header_def currentTranslations_listHeader v)
qed

lemma populate_state:
  "\<exists>items markers. snd (populate e s)
      = s\<lparr> organisationList := items, markerLayer := markers \<rparr>
      \<and> (organisationList s \<noteq> None \<longrightarrow> items \<noteq> None)
      \<and> (markerLayer s \<noteq> None \<longrightarrow> markers \<noteq> None)"
proof (cases "filteredPartners (sanitizedPartners s) (selectedLanguage s) (selectedCommunity s)")
  case (Inl err)
  then have "snd (populate e s) = s\<lparr> organisationList := organisationList s,
                                     markerLayer := markerLayer s \<rparr>"
    by (simp add: populate_def)
  then show ?thesis by blast
next
  case (Inr filtered)
  show ?thesis
  proof (cases "length filtered = 0")
    case False
    with Inr have "snd (populate e s)
        = s\<lparr> organisationList := Some (fst (snd (render_all e (currentTranslations s)
                                   (selectedLanguage s) filtered ([], [])))),
             markerLayer := Some (snd (snd (render_all e (currentTranslations s)
                                   (selectedLanguage s) filtered ([], [])))) \<rparr>"
      by (simp add: populate_def Let_def)
    then show ?thesis by blast
  next
    case True
    show ?thesis
    proof (cases "read_label (currentTranslations s) (str ''noServicesFound'')")
      case (Inl err)
      with True Inr have "snd (populate e s) = s\<lparr> organisationList := organisationList s,
                                     markerLayer := markerLayer s \<rparr>"
        by (simp add: populate_def)
      then show ?thesis by blast
    next
      case (Inr v)
      with True \<open>filteredPartners (sanitizedPartners s) (selectedLanguage s)
                   (selectedCommunity s) = Inr filtered\<close>
      have "snd (populate e s)
         = s\<lparr> organisationList := Some [NoResults v], markerLayer := markerLayer s \<rparr>"
        by (simp add: populate_def)
      then show ?thesis by blast
    qed
  qed
qed

lemma updateDisplay_idempotent:
  "updateDisplay e (snd (updateDisplay e st)) = updateDisplay e st"
proof (cases "organisationList st = None \<or> markerLayer st = None")
  case True
  then show ?thesis by (simp add: updateDisplay_def)
next
  case False
  then obtain ol0 ml0 where present: "organisationList st = Some ol0" "markerLayer st = Some ml0"
    by auto
  let ?s1 = "st\<lparr> markerLayer := Some [], organisationList := Some [] \<rparr>"
  show ?thesis
  proof (cases "set_list_header ?s1")
    case (Inl err)
    with present have u: "updateDisplay e st = (Some err, ?s1)"
      by (simp add: updateDisplay_def Let_def)
    have "updateDisplay e ?s1 = (Some err, ?s1)"
      using Inl by (simp add: updateDisplay_def Let_def)
    with u show ?thesis by simp
  next
    case (Inr s2)
    with present have u: "updateDisplay e st = populate e s2"
      by (simp add: updateDisplay_def Let_def)
    from set_list_header_cases[OF Inr]
    have cl: "organisationList s2 = Some []" "markerLayer s2 = Some []"
      "s2\<lparr> markerLayer := Some [], organisationList := Some [] \<rparr> = s2"
      by auto
    obtain items markers where
      p: "snd (populate e s2) = s2\<lparr> organisationList := Some items, markerLayer := Some markers \<rparr>"
      using populate_state[of e s2] cl by auto
    let ?s3 = "s2\<lparr> organisationList := Some items, markerLayer := Some markers \<rparr>"
    have "?s3\<lparr> markerLayer := Some [], organisationList := Some [] \<rparr> = s2"
      using cl(3) by simp
    then have "updateDisplay e ?s3 = populate e s2"
      using set_list_header_again[OF Inr] by (simp add: updateDisplay_def Let_def)
    with u p show ?thesis by simp
  qed
qed

lemma updateDisplay_keeps_inputs:
  "sanitizedPartners (snd (updateDisplay e st)) = sanitizedPartners st
   \<and> selectedLanguage (snd (updateDisplay e st)) = selectedLanguage st
   \<and> selectedCommunity (snd (updateDisplay e st)) = selectedCommunity st"
proof (cases "organisationList st = None \<or> markerLayer st = None")
  case True
  then show ?thesis by (simp add: updateDisplay_def)
next
  case False
  then obtain ol0 ml0 where present: "organisationList st = Some ol0" "markerLayer st = Some ml0"
    by auto
  let ?s1 = "st\<lparr> markerLayer := Some [], organisationList := Some [] \<rparr>"
  show ?thesis
  proof (cases "set_list_header ?s1")
    case (Inl err)
    with present show ?thesis by (simp add: updateDisplay_def Let_def)
  next
    case (Inr s2)
    with present have u: "updateDisplay e st = populate e s2"
      by (simp add: updateDisplay_def Let_def)
    obtain items markers where
      p: "snd (populate e s2) = s2\<lparr> organisationList := items, markerLayer := markers \<rparr>"
      using populate_state[of e s2] by auto
    from set_list_header_cases[OF Inr] show ?thesis
      by (auto simp: u p)
  qed
qed









lemma node_descriptions_cards: "node_descriptions (map Item cs) = map card_description cs"
  by (induction cs) simp_all


text \<open>
  Claim C7. Whenever the projection exists it is the dataset filtered by the inclusion
  test, a subsequence of the dataset: the relative order of the included entries is kept.
  It exists for every dataset whose entries carry a \<open>languages\<close> array. Running
  \<open>updateDisplay\<close> a second time yields the same result and the same display as running
  it once; it changes neither the dataset nor the selected language and category, so the
  projection computed after a redraw is the projection computed before it.
\<close>

theorem projection_stable_and_idempotent:
  "(\<forall>r. filteredPartners ps lang cat = Inr r \<longrightarrow>
        subseq r ps \<and> r = filter (\<lambda>p. filter_callback lang cat p = Inr True) ps)
   \<and> ((\<forall>p \<in> set ps. languages p \<noteq> None) \<longrightarrow> (\<exists>r. filteredPartners ps lang cat = Inr r))
   \<and> updateDisplay e (snd (updateDisplay e st)) = updateDisplay e st
   \<and> filteredPartners (sanitizedPartners (snd (updateDisplay e st)))
         (selectedLanguage (snd (updateDisplay e st)))
         (selectedCommunity (snd (updateDisplay e st)))
       = filteredPartners (sanitizedPartners st) (selectedLanguage st) (selectedCommunity st)
   \<and> sanitizedPartners (snd (updateDisplay e st)) = sanitizedPartners st
   \<and> selectedLanguage (snd (updateDisplay e st)) = selectedLanguage st
   \<and> selectedCommunity (snd (updateDisplay e st)) = selectedCommunity st"
proof -
  have a: "\<forall>r. filteredPartners ps lang cat = Inr r \<longrightarrow>
        subseq r ps \<and> r = filter (\<lambda>p. filter_callback lang cat p = Inr True) ps"
  proof (intro allI impI)
    fix r assume "filteredPartners ps lang cat = Inr r"
    then have "r = filter (\<lambda>p. filter_callback lang cat p = Inr True) ps"
      unfolding filteredPartners_def by (rule filter_result_Inr)
    then show "subseq r ps \<and> r = filter (\<lambda>p. filter_callback lang cat p = Inr True) ps"
      by simp
  qed
  have b: "(\<forall>p \<in> set ps. languages p \<noteq> None) \<longrightarrow> (\<exists>r. filteredPartners ps lang cat = Inr r)"
    using filteredPartners_total by blast
  have c: "filteredPartners (sanitizedPartners (snd (updateDisplay e st)))
         (selectedLanguage (snd (updateDisplay e st)))
         (selectedCommunity (snd (updateDisplay e st)))
       = filteredPartners (sanitizedPartners st) (selectedLanguage st) (selectedCommunity st)"
    by (simp add: updateDisplay_keeps_inputs)
  from a b c updateDisplay_idempotent updateDisplay_keeps_inputs show ?thesis by blast
qed

theorem projection_stable_and_idempotent_witness:
  "filteredPartners partners (str ''Greek'') (str ''Arts'') = Inr [partner_3, partner_4]
   \<and> subseq [partner_3, partner_4] partners"
proof -
  note t = projection_stable_and_idempotent[of partners "str ''Greek''" "str ''Arts''"]
  from t partners_languages obtain r where
    r: "filteredPartners partners (str ''Greek'') (str ''Arts'') = Inr r" by blast
  with t have s: "subseq r partners"
    and f: "r = filter (\<lambda>p. filter_callback (str ''Greek'') (str ''Arts'') p = Inr True) partners"
    by blast+
  have "filter (\<lambda>p. filter_callback (str ''Greek'') (str ''Arts'') p = Inr True) partners
          = [partner_3, partner_4]"
    by (simp add: partners_def filter_callback_True partners_fields str_eq_iff)
  with r s f show ?thesis by simp
qed






end
